theory Spec2Isabelle
  imports Main "HOL-Library.Product_Lexorder"
begin

section \<open>Values of the host language\<close>

text \<open>
  The application is a Django project (\<^verbatim>\<open>student_management\<close>). Its views are modelled as
  functions from a request and the database to a result that carries the new database,
  the new session, the flash messages the view queued and the response.

  Strings are \<^typ>\<open>string\<close>; the character tests below are Python's
  \<^verbatim>\<open>str.isupper\<close>, \<^verbatim>\<open>str.islower\<close>, \<^verbatim>\<open>str.isdigit\<close> and \<^verbatim>\<open>str.isspace\<close> on the
  ASCII range (a character beyond ASCII satisfies none of them here).
\<close>

definition isupper :: "char \<Rightarrow> bool" where
  "isupper c = (let n = (of_char c :: nat) in 65 \<le> n \<and> n \<le> 90)"

definition islower :: "char \<Rightarrow> bool" where
  "islower c = (let n = (of_char c :: nat) in 97 \<le> n \<and> n \<le> 122)"

definition isdigit :: "char \<Rightarrow> bool" where
  "isdigit c = (let n = (of_char c :: nat) in 48 \<le> n \<and> n \<le> 57)"

definition isspace :: "char \<Rightarrow> bool" where
  "isspace c = (let n = (of_char c :: nat) in (9 \<le> n \<and> n \<le> 13) \<or> (28 \<le> n \<and> n \<le> 32))"

text \<open>\<^verbatim>\<open>s.strip()\<close>: white space removed at both ends.\<close>

definition strip :: "string \<Rightarrow> string" where
  "strip s = rev (dropWhile isspace (rev (dropWhile isspace s)))"

text \<open>\<^verbatim>\<open>str(n)\<close> for an integer, as an f-string prints it.\<close>

fun str_nat :: "nat \<Rightarrow> string" where
  "str_nat n =
     (if n < 10 then [''0123456789'' ! n]
      else str_nat (n div 10) @ [''0123456789'' ! (n mod 10)])"

declare str_nat.simps [simp del]

definition str_int :: "int \<Rightarrow> string" where
  "str_int i = (if i < 0 then ''-'' @ str_nat (nat (- i)) else str_nat (nat i))"

text \<open>\<^verbatim>\<open>not x\<close> for a value that is a string or \<^verbatim>\<open>None\<close>.\<close>

definition not_str :: "string option \<Rightarrow> bool" where
  "not_str x = (case x of None \<Rightarrow> True | Some s \<Rightarrow> s = [])"

text \<open>
  A \<^verbatim>\<open>datetime\<close>. Python orders two naive datetimes by year, month, day, hour, minute,
  second and microsecond, in this order.
\<close>

record datetime =
  dt_year :: nat
  dt_month :: nat
  dt_day :: nat
  dt_hour :: nat
  dt_minute :: nat
  dt_second :: nat
  dt_microsecond :: nat

definition dt_key :: "datetime \<Rightarrow> nat \<times> nat \<times> nat \<times> nat \<times> nat \<times> nat \<times> nat" where
  "dt_key d = (dt_year d, dt_month d, dt_day d, dt_hour d, dt_minute d, dt_second d, dt_microsecond d)"

definition dt_less :: "datetime \<Rightarrow> datetime \<Rightarrow> bool" where
  "dt_less a b = (dt_key a < dt_key b)"

text \<open>
  \<^verbatim>\<open>datetime.combine(d, datetime.min.time())\<close>: the date of \<open>d\<close> at midnight. A
  \<^verbatim>\<open>datetime\<close> is a \<^verbatim>\<open>date\<close> (its subclass), and \<^verbatim>\<open>combine\<close> keeps the date part only.
  \<^verbatim>\<open>d.replace(hour=0, minute=0, second=0, microsecond=0)\<close> is the same value.
\<close>

definition combine_min :: "datetime \<Rightarrow> datetime" where
  "combine_min d = d\<lparr>dt_hour := 0, dt_minute := 0, dt_second := 0, dt_microsecond := 0\<rparr>"

text \<open>The calendar date of a datetime (\<^verbatim>\<open>d.date()\<close>), ordered as Python orders dates.\<close>

definition dt_date :: "datetime \<Rightarrow> nat \<times> nat \<times> nat" where
  "dt_date d = (dt_year d, dt_month d, dt_day d)"

text \<open>A UUID is its 128-bit integer value.\<close>

type_synonym uuid = nat

datatype exception =
  DoesNotExist | MultipleObjectsReturned | Http404 | IntegrityError | DataError | ValueError

section \<open>The data model (\<^verbatim>\<open>models.py\<close>)\<close>

text \<open>
  One record per model class, with the fields of the class. A table is the list of its
  rows. The primary key \<^verbatim>\<open>id\<close> of each class is named after the class, since the three
  classes share field names.
\<close>

record User =
  user_id :: uuid
  user_email :: string
  user_password :: string
  user_first_name :: "string option"
  user_last_name :: "string option"
  user_created_at :: datetime
  user_updated_at :: datetime
  user_is_active :: bool
  user_is_admin :: bool
  user_last_login :: "datetime option"
  user_last_logout :: "datetime option"
  user_failed_login_attempts :: int
  user_is_locked :: bool

record Student =
  student_pk :: uuid
  student_student_id :: string
  student_first_name :: string
  student_last_name :: string
  student_photo :: "string option"
  student_created_at :: datetime
  student_level :: string

record LearningPath =
  lp_id :: uuid
  lp_student :: uuid
  lp_task_name :: string
  lp_start_date :: datetime
  lp_estimated_end_date :: datetime
  lp_used_leave :: "string option"
  lp_notes :: "string option"
  lp_required_duration :: string
  lp_is_completed :: bool
  lp_order :: nat

record database =
  users :: "User list"
  students :: "Student list"
  learning_paths :: "LearningPath list"

subsection \<open>Queries\<close>

text \<open>
  \<^verbatim>\<open>Model.objects.get(...)\<close> returns the one row that matches and raises
  \<^verbatim>\<open>DoesNotExist\<close> or \<^verbatim>\<open>MultipleObjectsReturned\<close> otherwise;
  \<^verbatim>\<open>get_object_or_404\<close> turns the first of the two into \<^verbatim>\<open>Http404\<close>.
\<close>

definition objects_get :: "('a \<Rightarrow> bool) \<Rightarrow> 'a list \<Rightarrow> exception + 'a" where
  "objects_get p rows =
     (case filter p rows of
        [] \<Rightarrow> Inl DoesNotExist
      | [r] \<Rightarrow> Inr r
      | _ \<Rightarrow> Inl MultipleObjectsReturned)"

definition get_object_or_404 :: "('a \<Rightarrow> bool) \<Rightarrow> 'a list \<Rightarrow> exception + 'a" where
  "get_object_or_404 p rows =
     (case objects_get p rows of
        Inl e \<Rightarrow> Inl (if e = DoesNotExist then Http404 else e)
      | Inr r \<Rightarrow> Inr r)"

text \<open>
  \<^verbatim>\<open>User.save\<close> (\<^verbatim>\<open>models.py\<close>) stamps \<^verbatim>\<open>updated_at\<close> and writes the row: an
  \<^verbatim>\<open>UPDATE\<close> of the rows with the instance's primary key for an instance that was read
  from the table (an \<^verbatim>\<open>INSERT\<close> when there is none), and an \<^verbatim>\<open>INSERT\<close> for an
  instance that was just constructed, which the table refuses with \<^verbatim>\<open>IntegrityError\<close>
  when the key is taken. \<^verbatim>\<open>delete\<close> removes the rows with the instance's key.
\<close>

definition User_save :: "datetime \<Rightarrow> User \<Rightarrow> database \<Rightarrow> database" where
  "User_save now user db =
     (let user' = user\<lparr>user_updated_at := now\<rparr> in
      db\<lparr>users :=
        (if list_ex (\<lambda>r. user_id r = user_id user) (users db)
         then map (\<lambda>r. if user_id r = user_id user then user' else r) (users db)
         else users db @ [user'])\<rparr>)"

definition User_insert :: "datetime \<Rightarrow> User \<Rightarrow> database \<Rightarrow> exception + database" where
  "User_insert now user db =
     (if list_ex (\<lambda>r. user_id r = user_id user) (users db) then Inl IntegrityError
      else Inr (db\<lparr>users := users db @ [user\<lparr>user_updated_at := now\<rparr>]\<rparr>))"

definition User_delete :: "User \<Rightarrow> database \<Rightarrow> database" where
  "User_delete user db = db\<lparr>users := filter (\<lambda>r. user_id r \<noteq> user_id user) (users db)\<rparr>"

definition LearningPath_save :: "LearningPath \<Rightarrow> database \<Rightarrow> database" where
  "LearningPath_save path db =
     db\<lparr>learning_paths :=
       (if list_ex (\<lambda>r. lp_id r = lp_id path) (learning_paths db)
        then map (\<lambda>r. if lp_id r = lp_id path then path else r) (learning_paths db)
        else learning_paths db @ [path])\<rparr>"

text \<open>
  \<^verbatim>\<open>order\<close> is a \<^verbatim>\<open>PositiveIntegerField\<close> (\<^verbatim>\<open>models.py\<close>) of a PostgreSQL table
  (\<^verbatim>\<open>settings.py\<close>): the column holds the values from 0 to 2147483647, and the
  \<^verbatim>\<open>INSERT\<close> of a greater one raises \<^verbatim>\<open>DataError\<close> and writes nothing. The views
  that update a stage write back the order they read.
\<close>

definition order_max :: nat where
  "order_max = 2147483647"

definition LearningPath_insert :: "LearningPath \<Rightarrow> database \<Rightarrow> exception + database" where
  "LearningPath_insert path db =
     (if lp_order path > order_max then Inl DataError
      else if list_ex (\<lambda>r. lp_id r = lp_id path) (learning_paths db) then Inl IntegrityError
      else Inr (db\<lparr>learning_paths := learning_paths db @ [path]\<rparr>))"

definition LearningPath_delete :: "LearningPath \<Rightarrow> database \<Rightarrow> database" where
  "LearningPath_delete path db =
     db\<lparr>learning_paths := filter (\<lambda>r. lp_id r \<noteq> lp_id path) (learning_paths db)\<rparr>"

text \<open>
  \<^verbatim>\<open>aggregate(Max('order'))['order__max']\<close>: \<^verbatim>\<open>None\<close> over no rows, the greatest
  value otherwise.
\<close>

definition aggregate_Max :: "nat list \<Rightarrow> nat option" where
  "aggregate_Max xs = (case xs of [] \<Rightarrow> None | x # ys \<Rightarrow> Some (fold max ys x))"

section \<open>Requests, sessions and results\<close>

text \<open>
  The session is the dictionary \<^verbatim>\<open>request.session\<close>; \<^verbatim>\<open>flush()\<close> empties it. A
  request carries its method, its form data, its session, the user the guard attached
  (\<^verbatim>\<open>request.user\<close>), the time of the request (what \<^verbatim>\<open>timezone.now()\<close> and
  \<^verbatim>\<open>datetime.now()\<close> return while it is served) and the value \<^verbatim>\<open>uuid.uuid4()\<close> gives
  to a model instance constructed while it is served.

  The functions of the framework and of the standard library that the views call are
  the fields of a record \<open>framework\<close>, a parameter of every view:
  \<^verbatim>\<open>check_password\<close> and \<^verbatim>\<open>make_password\<close> (the hashers behind \<^verbatim>\<open>utils.py\<close>),
  \<^verbatim>\<open>validate_email\<close>, \<^verbatim>\<open>uuid.UUID(s)\<close> (\<open>None\<close> for its \<^verbatim>\<open>ValueError\<close>),
  \<^verbatim>\<open>str\<close> of a UUID and of an exception, the field validation of
  \<^verbatim>\<open>LearningPathForm\<close> that precedes the form's own \<^verbatim>\<open>clean\<close> methods, and
  \<^verbatim>\<open>form.errors.as_json()\<close>.
\<close>

type_synonym session = "string \<rightharpoonup> string"

datatype level = SUCCESS | WARNING | ERROR

type_synonym message = "level \<times> string"

datatype response =
  Render string
  | Redirect string
  | JsonResponse nat "(string \<times> string) list"
  | HttpResponseNotFound
  | HttpResponseNotAllowed
  | HttpResponseServerError exception

record request =
  req_method :: string
  req_POST :: "string \<rightharpoonup> string"
  req_session :: session
  req_user :: "User option"
  req_now :: datetime
  req_uuid4 :: uuid

record result =
  res_db :: database
  res_session :: session
  res_messages :: "message list"
  res_response :: response

text \<open>
  The cleaned data of a \<^verbatim>\<open>LearningPathForm\<close>: a field is \<open>None\<close> when it is absent
  from \<^verbatim>\<open>cleaned_data\<close> or holds \<^verbatim>\<open>None\<close>.
\<close>

record cleaned_data =
  cd_task_name :: "string option"
  cd_start_date :: "datetime option"
  cd_estimated_end_date :: "datetime option"
  cd_required_duration :: "string option"
  cd_used_leave :: "string option"
  cd_notes :: "string option"

type_synonym form_errors = "(string \<times> string) list"

record framework =
  check_password :: "string \<Rightarrow> string \<Rightarrow> bool"
  make_password :: "string \<Rightarrow> string"
  validate_email :: "string \<Rightarrow> bool"
  UUID :: "string \<Rightarrow> uuid option"
  str_UUID :: "uuid \<Rightarrow> string"
  str_exception :: "exception \<Rightarrow> string"
  clean_fields :: "(string \<rightharpoonup> string) \<Rightarrow> form_errors \<times> cleaned_data"
  errors_as_json :: "form_errors \<Rightarrow> string"

text \<open>\<^verbatim>\<open>utils.py\<close>.\<close>

definition hash_password :: "framework \<Rightarrow> string \<Rightarrow> string" where
  "hash_password fw password = make_password fw password"

definition verify_password :: "framework \<Rightarrow> string \<Rightarrow> string \<Rightarrow> bool" where
  "verify_password fw password hashed_password = check_password fw password hashed_password"

text \<open>
  An exception that leaves a view: \<^verbatim>\<open>Http404\<close> becomes the not-found response, any
  other one a server error. The database and the session are as the view left them.
\<close>

definition raise :: "exception \<Rightarrow> database \<Rightarrow> session \<Rightarrow> message list \<Rightarrow> result" where
  "raise e db s msgs =
     \<lparr>res_db = db, res_session = s, res_messages = msgs,
      res_response = (if e = Http404 then HttpResponseNotFound else HttpResponseServerError e)\<rparr>"

definition respond :: "database \<Rightarrow> session \<Rightarrow> message list \<Rightarrow> response \<Rightarrow> result" where
  "respond db s msgs r = \<lparr>res_db = db, res_session = s, res_messages = msgs, res_response = r\<rparr>"

section \<open>The guard (\<^verbatim>\<open>decorators.admin_required\<close>)\<close>

type_synonym view = "request \<Rightarrow> database \<Rightarrow> result"

definition admin_required :: "framework \<Rightarrow> view \<Rightarrow> view" where
  "admin_required fw view_func request db =
     (let user_id_str = req_session request ''user_id'' in
      if not_str user_id_str then
        respond db (req_session request)
          [(ERROR, ''Please log in to access this page'')] (Redirect ''login'')
      else
        (case Option.bind user_id_str (UUID fw) of
           None \<Rightarrow>
             respond db Map.empty
               [(ERROR, ''Invalid session. Please log in again.'')] (Redirect ''login'')
         | Some uid \<Rightarrow>
             (case objects_get (\<lambda>u. user_id u = uid) (users db) of
                Inl e \<Rightarrow>
                  if e = DoesNotExist \<or> e = ValueError then
                    respond db Map.empty
                      [(ERROR, ''Invalid session. Please log in again.'')] (Redirect ''login'')
                  else
                    respond db (req_session request)
                      [(ERROR, ''An unexpected error occurred. Please try again later.'')]
                      (Redirect ''login'')
              | Inr user \<Rightarrow>
                  if \<not> user_is_admin user then
                    respond db (req_session request)
                      [(ERROR, ''You do not have permission to access this page'')]
                      (Redirect ''unauthorized'')
                  else view_func (request\<lparr>req_user := Some user\<rparr>) db)))"

section \<open>\<^verbatim>\<open>views.validate_password\<close>\<close>

text \<open>The character class of the regular expression \<^verbatim>\<open>[!@#$%^&*(),.?":{}|<>]\<close>.\<close>

definition special_characters :: string where
  "special_characters = ''!@#$%^&*(),.?'' @ [CHR 0x22] @ '':{}|<>''"

definition validate_password :: "string \<Rightarrow> string list" where
  "validate_password password =
     (if length password < 8
      then [''Password must be at least 8 characters long.''] else []) @
     (if \<not> list_ex isupper password
      then [''Password must contain at least one uppercase letter.''] else []) @
     (if \<not> list_ex islower password
      then [''Password must contain at least one lowercase letter.''] else []) @
     (if \<not> list_ex isdigit password
      then [''Password must contain at least one digit.''] else []) @
     (if \<not> list_ex (\<lambda>c. c \<in> set special_characters) password
      then [''Password must contain at least one special character (e.g., !@#$%^&*).''] else []) @
     (if CHR '' '' \<in> set password
      then [''Password cannot contain spaces.''] else [])"

section \<open>Authentication (\<^verbatim>\<open>views.py\<close>)\<close>

definition login_view :: "framework \<Rightarrow> view" where
  "login_view fw request db =
     (if req_method request = ''POST'' then
        (case (req_POST request ''email'', req_POST request ''password'') of
           (Some email, Some password) \<Rightarrow>
             if email = [] \<or> password = [] then
               respond db (req_session request)
                 [(ERROR, ''Please provide both email and password.'')] (Render ''login.html'')
             else
               (case objects_get (\<lambda>u. user_email u = email) (users db) of
                  Inl e \<Rightarrow>
                    if e = DoesNotExist then
                      respond db (req_session request)
                        [(ERROR, ''Invalid email or password.'')] (Render ''login.html'')
                    else raise e db (req_session request) []
                | Inr user \<Rightarrow>
                    if \<not> user_is_admin user \<and> user_is_locked user then
                      respond db (req_session request)
                        [(ERROR, ''Your account is locked. Please contact an admin.'')]
                        (Render ''login.html'')
                    else if verify_password fw password (user_password user) then
                      respond
                        (User_save (req_now request)
                           (user\<lparr>user_failed_login_attempts := 0,
                                  user_last_login := Some (req_now request)\<rparr>) db)
                        ((req_session request)
                           (''user_id'' \<mapsto> str_UUID fw (user_id user),
                            ''user_email'' \<mapsto> user_email user))
                        [(SUCCESS, ''Login successful!'')] (Redirect ''dashboard'')
                    else if \<not> user_is_admin user then
                      (let user1 = user\<lparr>user_failed_login_attempts :=
                                            user_failed_login_attempts user + 1\<rparr> in
                       if user_failed_login_attempts user1 \<ge> 5 then
                         respond
                           (User_save (req_now request) (user1\<lparr>user_is_locked := True\<rparr>) db)
                           (req_session request)
                           [(ERROR, ''Your account has been locked due to too many failed login attempts. Please contact an admin.'')]
                           (Render ''login.html'')
                       else
                         respond (User_save (req_now request) user1 db) (req_session request)
                           [(ERROR, ''Invalid email or password. Attempt '' @
                                    str_int (user_failed_login_attempts user1) @ ''/5.'')]
                           (Render ''login.html''))
                    else
                      respond db (req_session request)
                        [(ERROR, ''Invalid email or password.'')] (Render ''login.html''))
         | _ \<Rightarrow>
             respond db (req_session request)
               [(ERROR, ''Please provide both email and password.'')] (Render ''login.html''))
      else respond db (req_session request) [] (Render ''login.html''))"

text \<open>A run of login requests, one after the other, on the same database.\<close>

fun login_seq :: "framework \<Rightarrow> request list \<Rightarrow> database \<Rightarrow> database" where
  "login_seq fw [] db = db"
| "login_seq fw (r # rs) db = login_seq fw rs (res_db (login_view fw r db))"

text \<open>
  \<^verbatim>\<open>User(email=..., ...)\<close>: the instance takes the defaults of \<^verbatim>\<open>models.py\<close> for the
  fields the views do not pass.
\<close>

definition new_User :: "request \<Rightarrow> string \<Rightarrow> string \<Rightarrow> string \<Rightarrow> string \<Rightarrow> bool \<Rightarrow> User" where
  "new_User request email hashed_password first_name last_name is_admin =
     \<lparr>user_id = req_uuid4 request, user_email = email, user_password = hashed_password,
      user_first_name = Some first_name, user_last_name = Some last_name,
      user_created_at = req_now request, user_updated_at = req_now request,
      user_is_active = True, user_is_admin = is_admin,
      user_last_login = None, user_last_logout = None,
      user_failed_login_attempts = 0, user_is_locked = False\<rparr>"

text \<open>\<^verbatim>\<open>request.POST.get(key, '')\<close>.\<close>

definition POST_get :: "request \<Rightarrow> string \<Rightarrow> string" where
  "POST_get request key = (case req_POST request key of None \<Rightarrow> [] | Some v \<Rightarrow> v)"

definition register_view :: "framework \<Rightarrow> view" where
  "register_view fw request db =
     (if req_method request = ''POST'' then
        (case (req_POST request ''email'', req_POST request ''password'') of
           (Some email, Some password) \<Rightarrow>
             if email = [] \<or> password = [] then
               respond db (req_session request)
                 [(ERROR, ''Please provide both email and password.'')] (Render ''register.html'')
             else if length email > 255 then
               respond db (req_session request)
                 [(ERROR, ''Email address is too long (max 255 characters).'')]
                 (Render ''register.html'')
             else if length password > 128 then
               respond db (req_session request)
                 [(ERROR, ''Password is too long (max 128 characters).'')]
                 (Render ''register.html'')
             else if \<not> validate_email fw email then
               respond db (req_session request)
                 [(ERROR, ''Please enter a valid email address.'')] (Render ''register.html'')
             else if validate_password password \<noteq> [] then
               respond db (req_session request)
                 (map (\<lambda>e. (ERROR, e)) (validate_password password)) (Render ''register.html'')
             else if list_ex (\<lambda>u. user_email u = email) (users db) then
               respond db (req_session request)
                 [(ERROR, ''This email is already registered.'')] (Render ''register.html'')
             else
               (case User_insert (req_now request)
                       (new_User request email (hash_password fw password)
                          (POST_get request ''first_name'') (POST_get request ''last_name'') False)
                       db of
                  Inl e \<Rightarrow>
                    if e = ValueError then
                      respond db (req_session request)
                        [(ERROR, ''An error occurred while registering. Please try again.'')]
                        (Render ''register.html'')
                    else raise e db (req_session request) []
                | Inr db' \<Rightarrow>
                    respond db' (req_session request)
                      [(SUCCESS, ''Registration successful! Please log in.'')] (Redirect ''login''))
         | _ \<Rightarrow>
             respond db (req_session request)
               [(ERROR, ''Please provide both email and password.'')] (Render ''register.html''))
      else respond db (req_session request) [] (Render ''register.html''))"

definition logout_view :: "framework \<Rightarrow> view" where
  "logout_view fw request db =
     (let user_id_str = req_session request ''user_id'';
          done = (\<lambda>db'. respond db' Map.empty [(SUCCESS, ''Logout successful!'')] (Redirect ''login''))
      in
      if not_str user_id_str then done db
      else
        (case Option.bind user_id_str (UUID fw) of
           None \<Rightarrow> done db
         | Some uid \<Rightarrow>
             (case objects_get (\<lambda>u. user_id u = uid) (users db) of
                Inl e \<Rightarrow>
                  if e = DoesNotExist \<or> e = ValueError then done db
                  else raise e db (req_session request) []
              | Inr user \<Rightarrow>
                  done (User_save (req_now request)
                          (user\<lparr>user_last_logout := Some (req_now request)\<rparr>) db))))"

definition dashboard_view :: "framework \<Rightarrow> view" where
  "dashboard_view fw request db =
     (let user_id_str = req_session request ''user_id'' in
      if not_str user_id_str then
        respond db (req_session request)
          [(ERROR, ''Please log in to access the dashboard.'')] (Redirect ''login'')
      else
        (case Option.bind user_id_str (UUID fw) of
           None \<Rightarrow>
             respond db Map.empty
               [(ERROR, ''User not found. Please log in again.'')] (Redirect ''login'')
         | Some uid \<Rightarrow>
             (case objects_get (\<lambda>u. user_id u = uid) (users db) of
                Inl e \<Rightarrow>
                  if e = DoesNotExist \<or> e = ValueError then
                    respond db Map.empty
                      [(ERROR, ''User not found. Please log in again.'')] (Redirect ''login'')
                  else raise e db (req_session request) []
              | Inr user \<Rightarrow> respond db (req_session request) [] (Render ''dashboard.html''))))"

section \<open>User management (\<^verbatim>\<open>views.py\<close>)\<close>

text \<open>
  Each view below is decorated with \<^verbatim>\<open>@admin_required\<close>: the body of the view is one
  definition, the decorated view the next.
\<close>

definition add_user_view_body :: "framework \<Rightarrow> view" where
  "add_user_view_body fw request db =
     (if req_method request = ''POST'' then
        (case (req_POST request ''email'', req_POST request ''password'') of
           (Some email, Some password) \<Rightarrow>
             if email = [] \<or> password = [] then
               respond db (req_session request)
                 [(ERROR, ''Please provide both email and password.'')] (Render ''add_user.html'')
             else if length email > 255 then
               respond db (req_session request)
                 [(ERROR, ''Email address is too long (max 255 characters).'')]
                 (Render ''add_user.html'')
             else if length password > 128 then
               respond db (req_session request)
                 [(ERROR, ''Password is too long (max 128 characters).'')]
                 (Render ''add_user.html'')
             else if \<not> validate_email fw email then
               respond db (req_session request)
                 [(ERROR, ''Please enter a valid email address.'')] (Render ''add_user.html'')
             else if validate_password password \<noteq> [] then
               respond db (req_session request)
                 (map (\<lambda>e. (ERROR, e)) (validate_password password)) (Render ''add_user.html'')
             else if list_ex (\<lambda>u. user_email u = email) (users db) then
               respond db (req_session request)
                 [(ERROR, ''This email is already registered.'')] (Render ''add_user.html'')
             else
               (case User_insert (req_now request)
                       (new_User request email (hash_password fw password)
                          (POST_get request ''first_name'') (POST_get request ''last_name'')
                          (req_POST request ''is_admin'' = Some ''on''))
                       db of
                  Inl e \<Rightarrow>
                    if e = ValueError then
                      respond db (req_session request)
                        [(ERROR, ''An error occurred while adding the user. Please try again.'')]
                        (Render ''add_user.html'')
                    else raise e db (req_session request) []
                | Inr db' \<Rightarrow>
                    respond db' (req_session request)
                      [(SUCCESS, ''User added successfully!'')] (Redirect ''list_users''))
         | _ \<Rightarrow>
             respond db (req_session request)
               [(ERROR, ''Please provide both email and password.'')] (Render ''add_user.html''))
      else respond db (req_session request) [] (Render ''add_user.html''))"

definition add_user_view :: "framework \<Rightarrow> view" where
  "add_user_view fw = admin_required fw (add_user_view_body fw)"

definition list_users_view_body :: view where
  "list_users_view_body request db = respond db (req_session request) [] (Render ''list_users.html'')"

definition list_users_view :: "framework \<Rightarrow> view" where
  "list_users_view fw = admin_required fw list_users_view_body"

definition delete_user_view_body :: "uuid \<Rightarrow> view" where
  "delete_user_view_body uid request db =
     (case get_object_or_404 (\<lambda>u. user_id u = uid) (users db) of
        Inl e \<Rightarrow> raise e db (req_session request) []
      | Inr user \<Rightarrow>
          if user_is_admin user then
            respond db (req_session request)
              [(ERROR, ''Admin users cannot be deleted.'')] (Redirect ''list_users'')
          else if req_method request = ''POST'' then
            respond (User_delete user db) (req_session request)
              [(SUCCESS, ''User deleted successfully!'')] (Redirect ''list_users'')
          else
            respond db (req_session request)
              [(WARNING, ''Invalid request method for deleting a user.'')]
              (Redirect ''list_users''))"

definition delete_user_view :: "framework \<Rightarrow> uuid \<Rightarrow> view" where
  "delete_user_view fw uid = admin_required fw (delete_user_view_body uid)"

text \<open>
  The checks of \<^verbatim>\<open>update_user_view\<close> on a new password, in the order of the source:
  the messages of the first check that fails, or none.
\<close>

definition new_password_errors :: "framework \<Rightarrow> User \<Rightarrow> string option \<Rightarrow> string option \<Rightarrow> message list" where
  "new_password_errors fw user password new_password =
     (case new_password of
        None \<Rightarrow> []
      | Some new_pw \<Rightarrow>
          if new_pw = [] then []
          else
            (case password of
               None \<Rightarrow> [(ERROR, ''Please provide the current password to change the password.'')]
             | Some pw \<Rightarrow>
                 if pw = [] then
                   [(ERROR, ''Please provide the current password to change the password.'')]
                 else if \<not> verify_password fw pw (user_password user) then
                   [(ERROR, ''Current password is incorrect.'')]
                 else if length new_pw > 128 then
                   [(ERROR, ''New password is too long (max 128 characters).'')]
                 else map (\<lambda>e. (ERROR, e)) (validate_password new_pw)))"

definition update_user_view_body :: "framework \<Rightarrow> uuid \<Rightarrow> view" where
  "update_user_view_body fw uid request db =
     (case get_object_or_404 (\<lambda>u. user_id u = uid) (users db) of
        Inl e \<Rightarrow> raise e db (req_session request) []
      | Inr user \<Rightarrow>
          if req_method request = ''POST'' then
            (case req_POST request ''email'' of
               None \<Rightarrow>
                 respond db (req_session request)
                   [(ERROR, ''Please provide an email address.'')] (Render ''update_user.html'')
             | Some email \<Rightarrow>
                 if email = [] then
                   respond db (req_session request)
                     [(ERROR, ''Please provide an email address.'')] (Render ''update_user.html'')
                 else if length email > 255 then
                   respond db (req_session request)
                     [(ERROR, ''Email address is too long (max 255 characters).'')]
                     (Render ''update_user.html'')
                 else if \<not> validate_email fw email then
                   respond db (req_session request)
                     [(ERROR, ''Please enter a valid email address.'')]
                     (Render ''update_user.html'')
                 else if list_ex (\<lambda>u. user_email u = email \<and> user_id u \<noteq> uid) (users db) then
                   respond db (req_session request)
                     [(ERROR, ''This email is already registered.'')]
                     (Render ''update_user.html'')
                 else if new_password_errors fw user (req_POST request ''password'')
                           (req_POST request ''new_password'') \<noteq> [] then
                   respond db (req_session request)
                     (new_password_errors fw user (req_POST request ''password'')
                        (req_POST request ''new_password''))
                     (Render ''update_user.html'')
                 else
                   respond
                     (User_save (req_now request)
                        (user\<lparr>user_email := email,
                               user_password :=
                                 (if not_str (req_POST request ''new_password'')
                                  then user_password user
                                  else hash_password fw (POST_get request ''new_password'')),
                               user_first_name := Some (POST_get request ''first_name''),
                               user_last_name := Some (POST_get request ''last_name''),
                               user_is_admin := (req_POST request ''is_admin'' = Some ''on'')\<rparr>)
                        db)
                     (req_session request)
                     [(SUCCESS, ''User updated successfully!'')] (Redirect ''list_users''))
          else respond db (req_session request) [] (Render ''update_user.html''))"

definition update_user_view :: "framework \<Rightarrow> uuid \<Rightarrow> view" where
  "update_user_view fw uid = admin_required fw (update_user_view_body fw uid)"

text \<open>\<^verbatim>\<open>toggle_lock_user\<close>: the body of the view, and the view as decorated.\<close>

definition toggle_lock_user_body :: "uuid \<Rightarrow> view" where
  "toggle_lock_user_body uid request db =
     (case get_object_or_404 (\<lambda>u. user_id u = uid) (users db) of
        Inl e \<Rightarrow> raise e db (req_session request) []
      | Inr user \<Rightarrow>
          if req_method request = ''POST'' then
            (let is_locked = (req_POST request ''is_locked'' = Some ''on'');
                 status = (if is_locked then ''locked'' else ''unlocked'') in
             respond
               (User_save (req_now request)
                  (user\<lparr>user_is_locked := is_locked, user_failed_login_attempts := 0\<rparr>) db)
               (req_session request)
               [(SUCCESS, ''User '' @ user_email user @ '' has been '' @ status @ ''.'')]
               (Redirect ''list_users''))
          else
            respond db (req_session request)
              [(WARNING, ''Invalid request method for toggling user lock status.'')]
              (Redirect ''list_users''))"

definition toggle_lock_user :: "framework \<Rightarrow> uuid \<Rightarrow> view" where
  "toggle_lock_user fw uid = admin_required fw (toggle_lock_user_body uid)"

section \<open>\<^verbatim>\<open>forms.LearningPathForm\<close>\<close>

definition clean_required_duration :: "string option \<Rightarrow> string + string" where
  "clean_required_duration required_duration =
     (if not_str required_duration then Inl ''Required duration is mandatory.''
      else Inr (strip (case required_duration of None \<Rightarrow> [] | Some d \<Rightarrow> d)))"

text \<open>
  \<^verbatim>\<open>LearningPathForm.clean\<close>, given the time of the call and the primary key of the
  form's instance (\<^verbatim>\<open>self.instance.pk\<close>). Both values are datetimes, so both
  \<^verbatim>\<open>isinstance(..., date)\<close> tests hold and both are replaced by their date at midnight
  before they are compared. The result is the message of the \<^verbatim>\<open>ValidationError\<close> or
  the cleaned data.
\<close>

definition LearningPathForm_clean :: "datetime \<Rightarrow> uuid option \<Rightarrow> cleaned_data \<Rightarrow> string + cleaned_data" where
  "LearningPathForm_clean now instance_pk cd =
     (let date_error =
        (case (cd_start_date cd, cd_estimated_end_date cd) of
           (Some start_date0, Some estimated_end_date0) \<Rightarrow>
             (let start_date = combine_min start_date0;
                  estimated_end_date = combine_min estimated_end_date0;
                  today = combine_min now
              in
              if dt_less estimated_end_date start_date then
                Some ''Start date cannot be later than the estimated end date.''
              else if dt_less start_date today \<and> instance_pk = None then
                Some ''Start date cannot be in the past for new learning paths.''
              else None)
         | _ \<Rightarrow> None)
      in
      case date_error of
        Some e \<Rightarrow> Inl e
      | None \<Rightarrow>
          Inr (cd\<lparr>cd_used_leave := (if not_str (cd_used_leave cd) then None
                                     else map_option strip (cd_used_leave cd)),
                  cd_notes := (if not_str (cd_notes cd) then None
                               else map_option strip (cd_notes cd))\<rparr>))"

text \<open>
  \<^verbatim>\<open>form.is_valid()\<close>: the validation of the fields (the framework's), then
  \<^verbatim>\<open>clean_required_duration\<close> if the field passed, then \<^verbatim>\<open>clean\<close>. The result is the
  errors of the form, in this order, and its cleaned data; the form is valid when it has
  no error.
\<close>

definition LearningPathForm_full_clean ::
    "framework \<Rightarrow> datetime \<Rightarrow> uuid option \<Rightarrow> (string \<rightharpoonup> string) \<Rightarrow> form_errors \<times> cleaned_data" where
  "LearningPathForm_full_clean fw now instance_pk data =
     (let (errors0, cd0) = clean_fields fw data;
          (errors1, cd1) =
            (case cd_required_duration cd0 of
               None \<Rightarrow> (errors0, cd0)
             | Some d \<Rightarrow>
                 (case clean_required_duration (Some d) of
                    Inl e \<Rightarrow> (errors0 @ [(''required_duration'', e)], cd0\<lparr>cd_required_duration := None\<rparr>)
                  | Inr v \<Rightarrow> (errors0, cd0\<lparr>cd_required_duration := Some v\<rparr>)))
      in
      case LearningPathForm_clean now instance_pk cd1 of
        Inl e \<Rightarrow> (errors1 @ [(''__all__'', e)], cd1)
      | Inr cd2 \<Rightarrow> (errors1, cd2))"

text \<open>
  \<^verbatim>\<open>LearningPathForm(request.POST)\<close> has no instance of its own and constructs
  \<^verbatim>\<open>LearningPath()\<close>, whose \<^verbatim>\<open>id\<close> takes its default \<^verbatim>\<open>uuid.uuid4\<close>
  (\<^verbatim>\<open>models.py\<close>) at construction: the primary key of the instance of a new form is
  set. \<^verbatim>\<open>LearningPathForm(request.POST, instance=path)\<close> has the key of \<open>path\<close>.
\<close>

definition new_form_instance_pk :: "request \<Rightarrow> uuid option" where
  "new_form_instance_pk request = Some (req_uuid4 request)"

section \<open>Learning paths (\<^verbatim>\<open>views.py\<close>)\<close>

text \<open>
  \<^verbatim>\<open>add_learning_path\<close> reads the greatest order of the student's stages
  (\<open>existing_max_order\<close>, the query of the view, with \<^verbatim>\<open>or 0\<close>) and then writes the
  new stage (\<open>save_new_stage\<close>); nothing in the view or in \<^verbatim>\<open>settings.py\<close> puts the
  two in one transaction. A valid form holds its two dates; \<^verbatim>\<open>save\<close> raises
  \<^verbatim>\<open>IntegrityError\<close> for a stage without one, and \<^verbatim>\<open>DataError\<close> for an order
  beyond the range of the column.
\<close>

definition existing_max_order :: "Student \<Rightarrow> database \<Rightarrow> nat" where
  "existing_max_order student db =
     (let existing_paths = filter (\<lambda>p. lp_student p = student_pk student) (learning_paths db) in
      case aggregate_Max (map lp_order existing_paths) of None \<Rightarrow> 0 | Some m \<Rightarrow> m)"

definition save_new_stage :: "request \<Rightarrow> Student \<Rightarrow> cleaned_data \<Rightarrow> nat \<Rightarrow> database \<Rightarrow> result" where
  "save_new_stage request student cd max_order db =
     (let new_order = max_order + 1 in
      case (cd_start_date cd, cd_estimated_end_date cd) of
        (Some start_date, Some estimated_end_date) \<Rightarrow>
          (case LearningPath_insert
                  \<lparr>lp_id = req_uuid4 request, lp_student = student_pk student,
                   lp_task_name = (case cd_task_name cd of None \<Rightarrow> [] | Some v \<Rightarrow> v),
                   lp_start_date = start_date, lp_estimated_end_date = estimated_end_date,
                   lp_used_leave = cd_used_leave cd, lp_notes = cd_notes cd,
                   lp_required_duration = (case cd_required_duration cd of None \<Rightarrow> [] | Some v \<Rightarrow> v),
                   lp_is_completed = False, lp_order = new_order\<rparr> db of
             Inl e \<Rightarrow> raise e db (req_session request) []
           | Inr db' \<Rightarrow>
               respond db' (req_session request)
                 [(SUCCESS, ''New learning path stage added to '' @ student_first_name student @
                            '' '' @ student_last_name student @ ''!'')]
                 (Redirect ''dashboard''))
      | _ \<Rightarrow> raise IntegrityError db (req_session request) [])"

definition add_learning_path_body :: "framework \<Rightarrow> uuid \<Rightarrow> view" where
  "add_learning_path_body fw student_id request db =
     (case get_object_or_404 (\<lambda>s. student_pk s = student_id) (students db) of
        Inl e \<Rightarrow> raise e db (req_session request) []
      | Inr student \<Rightarrow>
          if req_method request = ''POST'' then
            (let (errors, cd) =
                   LearningPathForm_full_clean fw (req_now request)
                     (new_form_instance_pk request) (req_POST request)
             in
             if errors = [] then
               save_new_stage request student cd (existing_max_order student db) db
             else
               respond db (req_session request)
                 (map (\<lambda>(field, error). (ERROR, field @ '': '' @ error)) errors)
                 (Render ''add_learning_path.html''))
          else respond db (req_session request) [] (Render ''add_learning_path.html''))"

definition add_learning_path :: "framework \<Rightarrow> uuid \<Rightarrow> view" where
  "add_learning_path fw student_id = admin_required fw (add_learning_path_body fw student_id)"

definition complete_learning_path_body :: "uuid \<Rightarrow> view" where
  "complete_learning_path_body path_id request db =
     (if req_method request = ''POST'' then
        (case get_object_or_404 (\<lambda>p. lp_id p = path_id) (learning_paths db) of
           Inl e \<Rightarrow> raise e db (req_session request) []
         | Inr path \<Rightarrow>
             respond (LearningPath_save (path\<lparr>lp_is_completed := True\<rparr>) db) (req_session request)
               [(SUCCESS, ''Learning path marked as completed!'')] (Redirect ''dashboard''))
      else
        respond db (req_session request)
          [(WARNING, ''Invalid request method for completing a learning path.'')]
          (Redirect ''dashboard''))"

definition complete_learning_path :: "framework \<Rightarrow> uuid \<Rightarrow> view" where
  "complete_learning_path fw path_id = admin_required fw (complete_learning_path_body path_id)"

text \<open>
  \<^verbatim>\<open>delete_learning_path\<close> is decorated with \<^verbatim>\<open>@require_POST\<close> and with nothing else:
  a request of another method gets the not-allowed response, and a \<^verbatim>\<open>POST\<close> runs the
  body.
\<close>

definition delete_learning_path :: "framework \<Rightarrow> uuid \<Rightarrow> view" where
  "delete_learning_path fw path_id request db =
     (if req_method request \<noteq> ''POST'' then
        respond db (req_session request) [] HttpResponseNotAllowed
      else
        (case get_object_or_404 (\<lambda>p. lp_id p = path_id) (learning_paths db) of
           Inl e \<Rightarrow>
             if e = DoesNotExist \<or> e = ValueError then
               respond db (req_session request)
                 [(ERROR, ''Error deleting learning path stage: '' @ str_exception fw e)]
                 (JsonResponse 400 [(''status'', ''error''), (''message'', str_exception fw e)])
             else raise e db (req_session request) []
         | Inr path \<Rightarrow>
             respond (LearningPath_delete path db) (req_session request)
               [(SUCCESS, ''Learning path stage deleted successfully.'')]
               (JsonResponse 200 [(''status'', ''success'')])))"

text \<open>
  \<^verbatim>\<open>form.save()\<close> of a form with an instance writes the fields of the form that are in
  its cleaned data into the instance; \<^verbatim>\<open>order\<close> and \<^verbatim>\<open>student\<close> are not fields of the
  form.
\<close>

definition update_learning_path_body :: "framework \<Rightarrow> uuid \<Rightarrow> view" where
  "update_learning_path_body fw path_id request db =
     (case get_object_or_404 (\<lambda>p. lp_id p = path_id) (learning_paths db) of
        Inl e \<Rightarrow> raise e db (req_session request) []
      | Inr path \<Rightarrow>
          if req_method request = ''POST'' then
            (let (errors, cd) =
                   LearningPathForm_full_clean fw (req_now request) (Some (lp_id path))
                     (req_POST request)
             in
             if errors = [] then
               respond
                 (LearningPath_save
                    (path\<lparr>lp_task_name := (case cd_task_name cd of None \<Rightarrow> lp_task_name path | Some v \<Rightarrow> v),
                           lp_start_date := (case cd_start_date cd of None \<Rightarrow> lp_start_date path | Some v \<Rightarrow> v),
                           lp_estimated_end_date :=
                             (case cd_estimated_end_date cd of None \<Rightarrow> lp_estimated_end_date path | Some v \<Rightarrow> v),
                           lp_required_duration :=
                             (case cd_required_duration cd of None \<Rightarrow> lp_required_duration path | Some v \<Rightarrow> v),
                           lp_used_leave := cd_used_leave cd,
                           lp_notes := cd_notes cd\<rparr>) db)
                 (req_session request)
                 [(SUCCESS, ''Learning path stage updated successfully.'')]
                 (JsonResponse 200 [(''status'', ''success'')])
             else
               respond db (req_session request) []
                 (JsonResponse 400 [(''status'', ''error''), (''message'', errors_as_json fw errors)]))
          else respond db (req_session request) [] (Render ''update_learning_path.html''))"

definition update_learning_path :: "framework \<Rightarrow> uuid \<Rightarrow> view" where
  "update_learning_path fw path_id = admin_required fw (update_learning_path_body fw path_id)"

text \<open>A run of \<^verbatim>\<open>add_learning_path\<close> requests for a student, one after the other.\<close>

fun add_seq :: "framework \<Rightarrow> uuid \<Rightarrow> request list \<Rightarrow> database \<Rightarrow> database" where
  "add_seq fw student_id [] db = db"
| "add_seq fw student_id (r # rs) db =
     add_seq fw student_id rs (res_db (add_learning_path fw student_id r db))"

text \<open>
  Two \<^verbatim>\<open>add_learning_path\<close> requests for one student, served by two workers at once:
  both run the query before either writes. Each request is a valid \<^verbatim>\<open>POST\<close> of an
  admin, with the cleaned data of its form.
\<close>

definition overlapping_adds ::
    "Student \<Rightarrow> request \<Rightarrow> cleaned_data \<Rightarrow> request \<Rightarrow> cleaned_data \<Rightarrow> database \<Rightarrow> database" where
  "overlapping_adds student request1 cd1 request2 cd2 db =
     (let max_order1 = existing_max_order student db;
          max_order2 = existing_max_order student db;
          db1 = res_db (save_new_stage request1 student cd1 max_order1 db)
      in res_db (save_new_stage request2 student cd2 max_order2 db1))"

text \<open>The orders of the stages of a student, in the order of the table.\<close>

definition orders_of :: "uuid \<Rightarrow> database \<Rightarrow> nat list" where
  "orders_of student_id db = map lp_order (filter (\<lambda>p. lp_student p = student_id) (learning_paths db))"

section \<open>Routes (\<^verbatim>\<open>urls.py\<close>)\<close>

text \<open>
  The routes of \<^verbatim>\<open>urls.py\<close> whose views are modelled above, with their path
  parameters, and the view each one calls. (The routes of the views on students,
  \<^verbatim>\<open>manage_learning_paths\<close> and \<^verbatim>\<open>unauthorized\<close> are left out; their views write
  no row of \<^verbatim>\<open>users\<close>.) A run of requests serves them one after the other.
\<close>

datatype route =
  Login | Register | Logout | Dashboard
  | AddUser | ListUsers | DeleteUser uuid | UpdateUser uuid | ToggleLockUser uuid
  | AddLearningPath uuid | CompleteLearningPath uuid | DeleteLearningPath uuid
  | UpdateLearningPath uuid

fun serve :: "framework \<Rightarrow> route \<Rightarrow> view" where
  "serve fw Login = login_view fw"
| "serve fw Register = register_view fw"
| "serve fw Logout = logout_view fw"
| "serve fw Dashboard = dashboard_view fw"
| "serve fw AddUser = add_user_view fw"
| "serve fw ListUsers = list_users_view fw"
| "serve fw (DeleteUser uid) = delete_user_view fw uid"
| "serve fw (UpdateUser uid) = update_user_view fw uid"
| "serve fw (ToggleLockUser uid) = toggle_lock_user fw uid"
| "serve fw (AddLearningPath student_id) = add_learning_path fw student_id"
| "serve fw (CompleteLearningPath path_id) = complete_learning_path fw path_id"
| "serve fw (DeleteLearningPath path_id) = delete_learning_path fw path_id"
| "serve fw (UpdateLearningPath path_id) = update_learning_path fw path_id"

fun serve_seq :: "framework \<Rightarrow> (route \<times> request) list \<Rightarrow> database \<Rightarrow> database" where
  "serve_seq fw [] db = db"
| "serve_seq fw ((route, request) # rest) db = serve_seq fw rest (res_db (serve fw route request db))"

text \<open>
  A request that neither unlocks nor promotes the user with the key \<open>uid\<close>: it is no
  \<^verbatim>\<open>toggle_lock_user\<close> for \<open>uid\<close> without \<^verbatim>\<open>is_locked=on\<close> and no
  \<^verbatim>\<open>update_user_view\<close> for \<open>uid\<close> with \<^verbatim>\<open>is_admin=on\<close>; and the key that
  \<^verbatim>\<open>uuid.uuid4()\<close> gives to a user it creates is not \<open>uid\<close>.
\<close>

fun leaves_locked :: "uuid \<Rightarrow> route \<times> request \<Rightarrow> bool" where
  "leaves_locked uid (ToggleLockUser target, request) =
     (target = uid \<longrightarrow> req_POST request ''is_locked'' = Some ''on'')"
| "leaves_locked uid (UpdateUser target, request) =
     (target = uid \<longrightarrow> req_POST request ''is_admin'' \<noteq> Some ''on'')"
| "leaves_locked uid (Register, request) = (req_uuid4 request \<noteq> uid)"
| "leaves_locked uid (AddUser, request) = (req_uuid4 request \<noteq> uid)"
| "leaves_locked uid (route, request) = True"

text \<open>
  The rows with the key \<open>uid\<close> are locked and belong to no admin, in a table with
  distinct keys.
\<close>

definition held_locked :: "uuid \<Rightarrow> database \<Rightarrow> bool" where
  "held_locked uid db =
     (distinct (map user_id (users db)) \<and>
      (\<forall>r \<in> set (users db). user_id r = uid \<longrightarrow> user_is_locked r \<and> \<not> user_is_admin r))"

section \<open>What a login request may do to a row\<close>

text \<open>
  The relation between a row of \<^verbatim>\<open>users\<close> before a login request and the same row
  after it, used to follow a row through a run of requests: the key, the email, the
  password and the admin flag stay; the row of an admin keeps its lock flag, and its
  counter stays or becomes 0; the row of a locked user who is no admin stays as it is;
  and a lock flag changes only from unlocked to locked, on the row of a user who is no
  admin, with a counter of 5 or more.
\<close>

definition login_keeps :: "User \<Rightarrow> User \<Rightarrow> bool" where
  "login_keeps r r' =
     (user_id r' = user_id r \<and> user_email r' = user_email r \<and>
      user_password r' = user_password r \<and> user_is_admin r' = user_is_admin r \<and>
      (user_is_admin r \<longrightarrow>
         user_is_locked r' = user_is_locked r \<and>
         (user_failed_login_attempts r' = user_failed_login_attempts r \<or>
          user_failed_login_attempts r' = 0)) \<and>
      (\<not> user_is_admin r \<and> user_is_locked r \<longrightarrow> r' = r) \<and>
      (user_is_locked r' \<noteq> user_is_locked r \<longrightarrow>
         \<not> user_is_admin r \<and> user_is_locked r' \<and> 5 \<le> user_failed_login_attempts r'))"

text \<open>
  The lock flags of a table \<open>db'\<close> are those of \<open>db\<close>: a row of \<open>db'\<close> has the flag of
  the row of \<open>db\<close> with its key, and a row with a key that \<open>db\<close> does not hold is
  unlocked.
\<close>

definition lock_flags_kept :: "database \<Rightarrow> database \<Rightarrow> bool" where
  "lock_flags_kept db db' =
     (\<forall>r' \<in> set (users db').
        (\<forall>r \<in> set (users db). user_id r = user_id r' \<longrightarrow> user_is_locked r' = user_is_locked r) \<and>
        (user_id r' \<notin> user_id ` set (users db) \<longrightarrow> \<not> user_is_locked r'))"

section \<open>Example data\<close>

text \<open>
  A small instance, for evaluating the views: a framework whose password hash is the
  password behind a prefix and whose form fields always clean to the same data, two
  users (a locked admin and a user with four failed attempts), one student with two
  stages of orders 1 and 3 (the stage of order 2 was deleted).
\<close>

definition mk_datetime :: "nat \<Rightarrow> nat \<Rightarrow> nat \<Rightarrow> nat \<Rightarrow> nat \<Rightarrow> datetime" where
  "mk_datetime y m d h mi =
     \<lparr>dt_year = y, dt_month = m, dt_day = d, dt_hour = h, dt_minute = mi,
      dt_second = 0, dt_microsecond = 0\<rparr>"

definition ex_cleaned :: cleaned_data where
  "ex_cleaned =
     \<lparr>cd_task_name = Some ''Soldering'',
      cd_start_date = Some (mk_datetime 2025 6 10 9 0),
      cd_estimated_end_date = Some (mk_datetime 2025 6 24 17 0),
      cd_required_duration = Some ''2 weeks'',
      cd_used_leave = Some [], cd_notes = Some []\<rparr>"

definition ex_framework :: framework where
  "ex_framework =
     \<lparr>check_password = (\<lambda>password hashed. hashed = ''pbkdf2$'' @ password),
      make_password = (\<lambda>password. ''pbkdf2$'' @ password),
      validate_email = (\<lambda>email. CHR ''@'' \<in> set email),
      UUID = map_of [(''7'', 7), (''8'', 8), (''9'', 9)],
      str_UUID = str_nat,
      str_exception = (\<lambda>e. ''error''),
      clean_fields = (\<lambda>data. ([], ex_cleaned)),
      errors_as_json = (\<lambda>errors. ''{}'')\<rparr>"

definition ex_admin :: User where
  "ex_admin =
     \<lparr>user_id = 7, user_email = ''root@b.com'', user_password = ''pbkdf2$Root123!'',
      user_first_name = Some ''Ada'', user_last_name = Some ''Root'',
      user_created_at = mk_datetime 2025 3 2 8 0, user_updated_at = mk_datetime 2025 3 2 8 0,
      user_is_active = True, user_is_admin = True,
      user_last_login = None, user_last_logout = None,
      user_failed_login_attempts = 3, user_is_locked = True\<rparr>"

definition ex_user :: User where
  "ex_user =
     \<lparr>user_id = 8, user_email = ''a@b.com'', user_password = ''pbkdf2$Abcdef1!'',
      user_first_name = Some ''Ann'', user_last_name = Some ''Bee'',
      user_created_at = mk_datetime 2025 3 3 8 0, user_updated_at = mk_datetime 2025 3 3 8 0,
      user_is_active = True, user_is_admin = False,
      user_last_login = None, user_last_logout = None,
      user_failed_login_attempts = 4, user_is_locked = False\<rparr>"

text \<open>
  The row of \<^verbatim>\<open>a@b.com\<close> after a fifth failed login, served at the time of the
  example requests below.
\<close>

definition ex_locked :: User where
  "ex_locked =
     ex_user\<lparr>user_failed_login_attempts := 5, user_is_locked := True,
             user_updated_at := mk_datetime 2025 6 2 12 30\<rparr>"

definition ex_student :: Student where
  "ex_student =
     \<lparr>student_pk = 10, student_student_id = ''S-001'', student_first_name = ''Cem'',
      student_last_name = ''Kaya'', student_photo = None,
      student_created_at = mk_datetime 2025 3 4 8 0, student_level = ''kidemli''\<rparr>"

definition ex_path :: "uuid \<Rightarrow> nat \<Rightarrow> LearningPath" where
  "ex_path pid n =
     \<lparr>lp_id = pid, lp_student = 10, lp_task_name = ''Wiring'',
      lp_start_date = mk_datetime 2025 4 2 9 0, lp_estimated_end_date = mk_datetime 2025 4 9 9 0,
      lp_used_leave = None, lp_notes = None, lp_required_duration = ''1 week'',
      lp_is_completed = False, lp_order = n\<rparr>"

definition ex_db :: database where
  "ex_db = \<lparr>users = [ex_admin, ex_user], students = [ex_student],
            learning_paths = [ex_path 21 1, ex_path 23 3]\<rparr>"

text \<open>
  A \<^verbatim>\<open>POST\<close> request with the given form data and session, served on 2 June 2025 at
  12:30; an instance constructed while it is served gets the key \<open>new_key\<close>.
\<close>

definition ex_post :: "(string \<times> string) list \<Rightarrow> (string \<times> string) list \<Rightarrow> uuid \<Rightarrow> request" where
  "ex_post data sess new_key =
     \<lparr>req_method = ''POST'', req_POST = map_of data, req_session = map_of sess,
      req_user = None, req_now = mk_datetime 2025 6 2 12 30, req_uuid4 = new_key\<rparr>"

section \<open>Properties\<close>

subsection \<open>Queries and writes\<close>

lemma objects_get_Inr_iff: "objects_get p rows = Inr r \<longleftrightarrow> filter p rows = [r]"
  by (auto simp: objects_get_def split: list.splits)

lemma objects_get_InrD: "objects_get p rows = Inr r \<Longrightarrow> r \<in> set rows \<and> p r"
proof -
  assume "objects_get p rows = Inr r"
  then have "filter p rows = [r]" by (simp add: objects_get_Inr_iff)
  then have "r \<in> set (filter p rows)" by simp
  then show ?thesis by simp
qed


lemma users_User_save_present:
  "u \<in> set (users db) \<Longrightarrow> user_id v = user_id u \<Longrightarrow>
   users (User_save now v db) =
     map (\<lambda>r. if user_id r = user_id u then v\<lparr>user_updated_at := now\<rparr> else r) (users db)"
  by (auto simp: User_save_def Let_def list_ex_iff)

lemma same_key_same_row:
  "distinct (map user_id rows) \<Longrightarrow> x \<in> set rows \<Longrightarrow> y \<in> set rows \<Longrightarrow>
   user_id x = user_id y \<Longrightarrow> x = y"
  by (meson distinct_map inj_onD)

subsection \<open>A locked admin\<close>

text \<open>
  C10. A login request with the correct password for a user who is an admin and is
  locked succeeds: the lock test applies to users who are no admins. The view sets the
  counter of the row to 0 and its \<^verbatim>\<open>last_login\<close> to the time of the request, saves it,
  puts the user's key and email into the session and redirects to the dashboard.
\<close>

theorem locked_admin_logs_in:
  assumes post: "req_method request = ''POST''"
    and email: "req_POST request ''email'' = Some email" "email \<noteq> []"
    and password: "req_POST request ''password'' = Some password" "password \<noteq> []"
    and found: "objects_get (\<lambda>u. user_email u = email) (users db) = Inr user"
    and admin: "user_is_admin user" and locked: "user_is_locked user"
    and correct: "verify_password fw password (user_password user)"
  shows "login_view fw request db =
           respond
             (User_save (req_now request)
                (user\<lparr>user_failed_login_attempts := 0, user_last_login := Some (req_now request)\<rparr>) db)
             ((req_session request)
                (''user_id'' \<mapsto> str_UUID fw (user_id user), ''user_email'' \<mapsto> user_email user))
             [(SUCCESS, ''Login successful!'')] (Redirect ''dashboard'') \<and>
         (let user' = user\<lparr>user_failed_login_attempts := 0,
                             user_last_login := Some (req_now request),
                             user_updated_at := req_now request\<rparr>;
              rows' = users (res_db (login_view fw request db))
          in user' \<in> set rows' \<and> (\<forall>r \<in> set rows'. user_id r = user_id user \<longrightarrow> r = user'))"
proof -
  have run: "login_view fw request db =
           respond
             (User_save (req_now request)
                (user\<lparr>user_failed_login_attempts := 0, user_last_login := Some (req_now request)\<rparr>) db)
             ((req_session request)
                (''user_id'' \<mapsto> str_UUID fw (user_id user), ''user_email'' \<mapsto> user_email user))
             [(SUCCESS, ''Login successful!'')] (Redirect ''dashboard'')"
    using assms by (simp add: login_view_def)
  have mem: "user \<in> set (users db)"
    using found by (simp add: objects_get_InrD)
  have rows: "users (res_db (login_view fw request db)) =
      map (\<lambda>r. if user_id r = user_id user
                then user\<lparr>user_failed_login_attempts := 0, user_last_login := Some (req_now request),
                          user_updated_at := req_now request\<rparr>
                else r) (users db)"
    using users_User_save_present [OF mem, of "user\<lparr>user_failed_login_attempts := 0, user_last_login := Some (req_now request)\<rparr>" "req_now request"]
    by (simp add: run respond_def)
  show ?thesis
    unfolding Let_def rows using run mem by (auto simp: image_iff intro!: bexI [of _ user])
qed

theorem locked_admin_logs_in_witness:
  "user_is_admin ex_admin \<and> user_is_locked ex_admin \<and>
   (let r = login_view ex_framework
              (ex_post [(''email'', ''root@b.com''), (''password'', ''Root123!'')] [] 0) ex_db
    in res_response r = Redirect ''dashboard'' \<and>
       res_session r ''user_id'' = Some ''7'' \<and>
       res_messages r = [(SUCCESS, ''Login successful!'')] \<and>
       users (res_db r) =
         [ex_admin\<lparr>user_failed_login_attempts := 0,
                   user_last_login := Some (mk_datetime 2025 6 2 12 30),
                   user_updated_at := mk_datetime 2025 6 2 12 30\<rparr>, ex_user])"
proof -
  let ?request = "ex_post [(''email'', ''root@b.com''), (''password'', ''Root123!'')] [] 0"
  have post: "req_method ?request = ''POST''" by (simp add: ex_post_def)
  have email: "req_POST ?request ''email'' = Some ''root@b.com''" by (simp add: ex_post_def)
  have password: "req_POST ?request ''password'' = Some ''Root123!''" by (simp add: ex_post_def)
  have found: "objects_get (\<lambda>u. user_email u = ''root@b.com'') (users ex_db) = Inr ex_admin"
    by (simp add: objects_get_def ex_db_def ex_admin_def ex_user_def)
  have admin: "user_is_admin ex_admin" and locked: "user_is_locked ex_admin"
    by (simp_all add: ex_admin_def)
  have correct: "verify_password ex_framework ''Root123!'' (user_password ex_admin)"
    by (simp add: verify_password_def ex_framework_def ex_admin_def)
  have now: "req_now ?request = mk_datetime 2025 6 2 12 30" by (simp add: ex_post_def)
  have saved: "users (User_save (mk_datetime 2025 6 2 12 30) 
           (ex_admin\<lparr>user_failed_login_attempts := 0, user_last_login := Some (mk_datetime 2025 6 2 12 30)\<rparr>) ex_db)
        = [ex_admin\<lparr>user_failed_login_attempts := 0,
                   user_last_login := Some (mk_datetime 2025 6 2 12 30),
                   user_updated_at := mk_datetime 2025 6 2 12 30\<rparr>, ex_user]"
    by (simp add: User_save_def ex_db_def ex_admin_def ex_user_def)
  have key: "str_UUID ex_framework (user_id ex_admin) = ''7''"
    by (simp add: ex_framework_def ex_admin_def str_nat.simps)
  from locked_admin_logs_in [OF post email _ password _ found admin locked correct]
  have "login_view ex_framework ?request ex_db =
           respond
             (User_save (req_now ?request)
                (ex_admin\<lparr>user_failed_login_attempts := 0, user_last_login := Some (req_now ?request)\<rparr>) ex_db)
             ((req_session ?request)
                (''user_id'' \<mapsto> str_UUID ex_framework (user_id ex_admin), ''user_email'' \<mapsto> user_email ex_admin))
             [(SUCCESS, ''Login successful!'')] (Redirect ''dashboard'')"
    by simp
  then show ?thesis
    by (simp add: admin locked now saved key respond_def Let_def)
qed

subsection \<open>What a login response tells about an email\<close>

text \<open>
  C7, as the specification states it: two login requests with an incorrect password that
  differ only in whether a user with the email exists get the same messages. The view
  answers a user who is no admin with the count of failed attempts (or with a lock
  notice), and an unknown email without it: in the example the first run is on the
  table with the user \<^verbatim>\<open>a@b.com\<close> (no failed attempt so far), the second on the table
  without.
\<close>

theorem login_messages_reveal_user:
  "res_messages
     (login_view ex_framework (ex_post [(''email'', ''a@b.com''), (''password'', ''wrong'')] [] 0)
        (ex_db\<lparr>users := [ex_admin, ex_user\<lparr>user_failed_login_attempts := 0\<rparr>]\<rparr>)) =
     [(ERROR, ''Invalid email or password. Attempt 1/5.'')] \<and>
   res_messages
     (login_view ex_framework (ex_post [(''email'', ''a@b.com''), (''password'', ''wrong'')] [] 0)
        (ex_db\<lparr>users := [ex_admin]\<rparr>)) =
     [(ERROR, ''Invalid email or password.'')] \<and>
   res_messages
     (login_view ex_framework (ex_post [(''email'', ''a@b.com''), (''password'', ''wrong'')] [] 0)
        (ex_db\<lparr>users := [ex_admin, ex_user\<lparr>user_failed_login_attempts := 0\<rparr>]\<rparr>)) \<noteq>
   res_messages
     (login_view ex_framework (ex_post [(''email'', ''a@b.com''), (''password'', ''wrong'')] [] 0)
        (ex_db\<lparr>users := [ex_admin]\<rparr>)) \<and>
   \<not> verify_password ex_framework ''wrong'' (user_password ex_user)"
  by (simp add: login_view_def ex_post_def ex_db_def ex_admin_def ex_user_def ex_framework_def
      objects_get_def verify_password_def respond_def User_save_def str_int_def str_nat.simps)

text \<open>
  C7, amended: the two runs get the same messages exactly when the user is an admin, or
  the request lacks its email or its password. (The first run is on a table where the
  email is the email of one user, the second on a table where it is the email of none;
  the password, if there is one, is not the user's.)
\<close>

theorem login_messages_same_iff_admin:
  assumes post: "req_method request = ''POST''"
    and email: "req_POST request ''email'' = Some email"
    and found: "objects_get (\<lambda>u. user_email u = email) (users db1) = Inr user"
    and unknown: "objects_get (\<lambda>u. user_email u = email) (users db2) = Inl DoesNotExist"
    and wrong: "\<forall>password. req_POST request ''password'' = Some password \<longrightarrow>
                  \<not> verify_password fw password (user_password user)"
  shows "res_messages (login_view fw request db1) = res_messages (login_view fw request db2) \<longleftrightarrow>
         user_is_admin user \<or> email = [] \<or> not_str (req_POST request ''password'')"
  using assms
  by (auto simp: login_view_def respond_def not_str_def Let_def split: option.splits)

theorem login_messages_same_iff_admin_witness:
  "res_messages
     (login_view ex_framework (ex_post [(''email'', ''root@b.com''), (''password'', ''wrong'')] [] 0)
        ex_db) =
   res_messages
     (login_view ex_framework (ex_post [(''email'', ''root@b.com''), (''password'', ''wrong'')] [] 0)
        (ex_db\<lparr>users := [ex_user]\<rparr>)) \<and>
   user_is_admin ex_admin"
proof -
  let ?request = "ex_post [(''email'', ''root@b.com''), (''password'', ''wrong'')] [] 0"
  have post: "req_method ?request = ''POST''" by (simp add: ex_post_def)
  have email: "req_POST ?request ''email'' = Some ''root@b.com''" by (simp add: ex_post_def)
  have found: "objects_get (\<lambda>u. user_email u = ''root@b.com'') (users ex_db) = Inr ex_admin"
    by (simp add: objects_get_def ex_db_def ex_admin_def ex_user_def)
  have unknown: "objects_get (\<lambda>u. user_email u = ''root@b.com'') (users (ex_db\<lparr>users := [ex_user]\<rparr>)) =
      Inl DoesNotExist"
    by (simp add: objects_get_def ex_user_def)
  have wrong: "\<forall>password. req_POST ?request ''password'' = Some password \<longrightarrow>
      \<not> verify_password ex_framework password (user_password ex_admin)"
    by (simp add: ex_post_def verify_password_def ex_framework_def ex_admin_def)
  have admin: "user_is_admin ex_admin" by (simp add: ex_admin_def)
  show ?thesis
    using login_messages_same_iff_admin [OF post email found unknown wrong] admin by simp
qed

subsection \<open>Deleting a stage without a session\<close>

text \<open>
  C5. The specification has a stage deleted only for a request whose session resolves
  to an admin. \<^verbatim>\<open>delete_learning_path\<close> carries \<^verbatim>\<open>@require_POST\<close> and no
  \<^verbatim>\<open>@admin_required\<close>: a \<^verbatim>\<open>POST\<close> for a stage of the table deletes it, whatever the
  session of the request holds.
\<close>

theorem delete_learning_path_ignores_session:
  assumes post: "req_method request = ''POST''"
    and found: "objects_get (\<lambda>p. lp_id p = path_id) (learning_paths db) = Inr path"
  shows "delete_learning_path fw path_id request db =
           respond (LearningPath_delete path db) (req_session request)
             [(SUCCESS, ''Learning path stage deleted successfully.'')]
             (JsonResponse 200 [(''status'', ''success'')]) \<and>
         path \<notin> set (learning_paths (res_db (delete_learning_path fw path_id request db)))"
proof -
  have "lp_id path = path_id"
    using objects_get_InrD [OF found] by simp
  then show ?thesis
    using assms
    by (simp add: delete_learning_path_def get_object_or_404_def respond_def LearningPath_delete_def)
qed

theorem delete_learning_path_anonymous:
  "req_session (ex_post [] [] 0) ''user_id'' = None \<and>
   ex_path 21 1 \<in> set (learning_paths ex_db) \<and>
   learning_paths (res_db (delete_learning_path ex_framework 21 (ex_post [] [] 0) ex_db)) =
     [ex_path 23 3] \<and>
   res_response (delete_learning_path ex_framework 21 (ex_post [] [] 0) ex_db) =
     JsonResponse 200 [(''status'', ''success'')]"
proof -
  have post: "req_method (ex_post [] [] 0) = ''POST''" by (simp add: ex_post_def)
  have found: "objects_get (\<lambda>p. lp_id p = 21) (learning_paths ex_db) = Inr (ex_path 21 1)"
    by (simp add: objects_get_def ex_db_def ex_path_def)
  have rest: "learning_paths (LearningPath_delete (ex_path 21 1) ex_db) = [ex_path 23 3]"
    by (simp add: LearningPath_delete_def ex_db_def ex_path_def)
  show ?thesis
    using delete_learning_path_ignores_session [OF post found, of ex_framework] rest
    by (simp add: respond_def ex_post_def ex_db_def)
qed

subsection \<open>The guard\<close>



subsection \<open>The order of a new stage\<close>

lemma aggregate_Max_eq:
  "aggregate_Max xs = (if xs = [] then None else Some (Max (set xs)))"
  by (cases xs) (simp_all add: aggregate_Max_def Max.set_eq_fold [symmetric])

lemma existing_max_order_eq:
  "existing_max_order student db =
     (if orders_of (student_pk student) db = [] then 0
      else Max (set (orders_of (student_pk student) db)))"
  by (simp add: existing_max_order_def orders_of_def aggregate_Max_eq)

lemma existing_max_order_bound:
  "n \<in> set (orders_of (student_pk student) db) \<Longrightarrow> n \<le> existing_max_order student db"
  by (auto simp: existing_max_order_eq)

lemma admin_required_passes:
  assumes "req_session request ''user_id'' = Some sid" and "sid \<noteq> []"
    and "UUID fw sid = Some uid"
    and "objects_get (\<lambda>u. user_id u = uid) (users db) = Inr admin"
    and "user_is_admin admin"
  shows "admin_required fw view_func request db = view_func (request\<lparr>req_user := Some admin\<rparr>) db"
  using assms by (simp add: admin_required_def not_str_def)

lemma learning_paths_save_new_stage:
  assumes dates: "cd_start_date cd = Some start" "cd_estimated_end_date cd = Some finish"
    and fresh: "req_uuid4 request \<notin> lp_id ` set (learning_paths db)"
    and bound: "max_order + 1 \<le> order_max"
  shows "learning_paths (res_db (save_new_stage request student cd max_order db)) =
           learning_paths db @
             [\<lparr>lp_id = req_uuid4 request, lp_student = student_pk student,
               lp_task_name = (case cd_task_name cd of None \<Rightarrow> [] | Some v \<Rightarrow> v),
               lp_start_date = start, lp_estimated_end_date = finish,
               lp_used_leave = cd_used_leave cd, lp_notes = cd_notes cd,
               lp_required_duration = (case cd_required_duration cd of None \<Rightarrow> [] | Some v \<Rightarrow> v),
               lp_is_completed = False, lp_order = max_order + 1\<rparr>]"
  using assms
  by (auto simp: save_new_stage_def LearningPath_insert_def respond_def list_ex_iff image_iff)

lemma learning_paths_save_new_stage_cases:
  "learning_paths (res_db (save_new_stage request student cd max_order db)) = learning_paths db \<or>
   (\<exists>stage. lp_student stage = student_pk student \<and> lp_order stage = max_order + 1 \<and>
      learning_paths (res_db (save_new_stage request student cd max_order db)) =
        learning_paths db @ [stage])"
  by (auto simp: save_new_stage_def LearningPath_insert_def respond_def raise_def Let_def
           split: option.splits)

lemma save_new_stage_out_of_range:
  assumes dates: "cd_start_date cd = Some start" "cd_estimated_end_date cd = Some finish"
    and beyond: "order_max < max_order + 1"
  shows "save_new_stage request student cd max_order db =
           raise DataError db (req_session request) []"
  using assms by (simp add: save_new_stage_def LearningPath_insert_def)

lemma add_learning_path_body_cases:
  "learning_paths (res_db (add_learning_path_body fw student_id request db)) = learning_paths db \<or>
   (\<exists>student stage. student_pk student = student_id \<and> lp_student stage = student_id \<and>
      lp_order stage = existing_max_order student db + 1 \<and>
      learning_paths (res_db (add_learning_path_body fw student_id request db)) =
        learning_paths db @ [stage])"
proof (cases "objects_get (\<lambda>s. student_pk s = student_id) (students db)")
  case (Inl e)
  then show ?thesis
    by (simp add: add_learning_path_body_def get_object_or_404_def raise_def)
next
  case (Inr student)
  then have pk: "student_pk student = student_id"
    using objects_get_InrD by fastforce
  show ?thesis
    using learning_paths_save_new_stage_cases [of request student _ "existing_max_order student db" db]
      Inr pk
    by (auto simp: add_learning_path_body_def get_object_or_404_def respond_def Let_def
             split: prod.splits)
qed

lemma admin_required_cases:
  "admin_required fw view_func request db =
     respond db (res_session (admin_required fw view_func request db))
       (res_messages (admin_required fw view_func request db))
       (res_response (admin_required fw view_func request db)) \<or>
   (\<exists>user. admin_required fw view_func request db = view_func (request\<lparr>req_user := Some user\<rparr>) db)"
  by (auto simp: admin_required_def respond_def Let_def split: option.splits sum.splits)

lemma add_learning_path_cases:
  "learning_paths (res_db (add_learning_path fw student_id request db)) = learning_paths db \<or>
   (\<exists>student stage. student_pk student = student_id \<and> lp_student stage = student_id \<and>
      lp_order stage = existing_max_order student db + 1 \<and>
      learning_paths (res_db (add_learning_path fw student_id request db)) =
        learning_paths db @ [stage])"
proof -
  from admin_required_cases [of fw "add_learning_path_body fw student_id" request db]
  consider
    (denied) "res_db (add_learning_path fw student_id request db) = db"
  | (passed) user where "add_learning_path fw student_id request db =
        add_learning_path_body fw student_id (request\<lparr>req_user := Some user\<rparr>) db"
    unfolding add_learning_path_def
    by (metis respond_def result.select_convs(1))
  then show ?thesis
  proof cases
    case denied
    then show ?thesis by simp
  next
    case passed
    then show ?thesis
      using add_learning_path_body_cases [of fw student_id "request\<lparr>req_user := Some user\<rparr>" db]
      by simp
  qed
qed

lemma delete_learning_path_cases:
  "res_db (delete_learning_path fw path_id request db) = db \<or>
   learning_paths (res_db (delete_learning_path fw path_id request db)) =
     filter (\<lambda>p. lp_id p \<noteq> path_id) (learning_paths db)"
proof (cases "objects_get (\<lambda>p. lp_id p = path_id) (learning_paths db)")
  case (Inl e)
  then show ?thesis
    by (simp add: delete_learning_path_def get_object_or_404_def respond_def raise_def)
next
  case (Inr path)
  then have "lp_id path = path_id"
    using objects_get_InrD by fastforce
  then show ?thesis
    using Inr
    by (simp add: delete_learning_path_def get_object_or_404_def respond_def LearningPath_delete_def)
qed

text \<open>
  C1, as the specification states it: a student whose greatest order is \<open>k\<close> gets a new
  stage of order \<open>k + 1\<close>. The order is a \<^verbatim>\<open>PositiveIntegerField\<close>: on a table where
  the student has a stage of order 2147483647, the valid \<^verbatim>\<open>POST\<close> of an admin computes
  2147483648, the insert raises \<^verbatim>\<open>DataError\<close>, and no stage is saved.
\<close>

theorem add_learning_path_order_out_of_range:
  "orders_of 10 (ex_db\<lparr>learning_paths := [ex_path 21 1, ex_path 23 2147483647]\<rparr>) =
     [1, 2147483647] \<and>
   learning_paths (res_db (add_learning_path ex_framework 10
       (ex_post [] [(''user_id'', ''7'')] 31)
       (ex_db\<lparr>learning_paths := [ex_path 21 1, ex_path 23 2147483647]\<rparr>))) =
     [ex_path 21 1, ex_path 23 2147483647] \<and>
   res_response (add_learning_path ex_framework 10
       (ex_post [] [(''user_id'', ''7'')] 31)
       (ex_db\<lparr>learning_paths := [ex_path 21 1, ex_path 23 2147483647]\<rparr>)) =
     HttpResponseServerError DataError"
proof -
  have strip: "strip ''2 weeks'' = ''2 weeks''"
    by (simp add: strip_def isspace_def)
  show ?thesis
    by (simp add: add_learning_path_def admin_required_def add_learning_path_body_def
        get_object_or_404_def objects_get_def not_str_def
        LearningPathForm_full_clean_def LearningPathForm_clean_def
        clean_required_duration_def strip combine_min_def dt_less_def dt_key_def mk_datetime_def
        new_form_instance_pk_def existing_max_order_def aggregate_Max_def save_new_stage_def
        LearningPath_insert_def order_max_def respond_def raise_def orders_of_def
        ex_framework_def ex_cleaned_def ex_post_def ex_db_def ex_admin_def ex_user_def
        ex_student_def ex_path_def)
qed

text \<open>
  C1, amended. A valid \<^verbatim>\<open>POST\<close> of an admin to \<^verbatim>\<open>add_learning_path\<close> computes the
  greatest order among the student's stages (0 if the student has none) plus 1. If this
  is within the range of the column (at most 2147483647), the view appends one stage to
  the table: a stage of the student, not completed, with this order. So the first stage
  of a student has order 1, and a student whose greatest order is \<open>k\<close> gets \<open>k + 1\<close>,
  whatever orders below \<open>k\<close> are missing. If it is beyond the range, the view saves
  nothing and the request ends in a server error. \<^verbatim>\<open>delete_learning_path\<close> leaves the
  table as it is or removes the rows with the key it was given: the other rows stay,
  with their orders.
\<close>

theorem add_learning_path_next_order:
  "(\<forall>sid uid admin student cd start finish.
      req_session request ''user_id'' = Some sid \<and> sid \<noteq> [] \<and> UUID fw sid = Some uid \<and>
      objects_get (\<lambda>u. user_id u = uid) (users db) = Inr admin \<and> user_is_admin admin \<and>
      req_method request = ''POST'' \<and>
      objects_get (\<lambda>s. student_pk s = student_id) (students db) = Inr student \<and>
      LearningPathForm_full_clean fw (req_now request) (new_form_instance_pk request)
        (req_POST request) = ([], cd) \<and>
      cd_start_date cd = Some start \<and> cd_estimated_end_date cd = Some finish \<and>
      req_uuid4 request \<notin> lp_id ` set (learning_paths db) \<and>
      (if orders_of student_id db = [] then 0 else Max (set (orders_of student_id db))) + 1
        \<le> order_max \<longrightarrow>
      (\<exists>stage.
         learning_paths (res_db (add_learning_path fw student_id request db)) =
           learning_paths db @ [stage] \<and>
         lp_student stage = student_id \<and> \<not> lp_is_completed stage \<and>
         lp_order stage =
           (if orders_of student_id db = [] then 0 else Max (set (orders_of student_id db))) + 1 \<and>
         (orders_of student_id db = [] \<longrightarrow> lp_order stage = 1) \<and>
         (\<forall>k. k \<in> set (orders_of student_id db) \<and> (\<forall>n \<in> set (orders_of student_id db). n \<le> k) \<longrightarrow>
              lp_order stage = k + 1))) \<and>
   (\<forall>sid uid admin student cd start finish.
      req_session request ''user_id'' = Some sid \<and> sid \<noteq> [] \<and> UUID fw sid = Some uid \<and>
      objects_get (\<lambda>u. user_id u = uid) (users db) = Inr admin \<and> user_is_admin admin \<and>
      req_method request = ''POST'' \<and>
      objects_get (\<lambda>s. student_pk s = student_id) (students db) = Inr student \<and>
      LearningPathForm_full_clean fw (req_now request) (new_form_instance_pk request)
        (req_POST request) = ([], cd) \<and>
      cd_start_date cd = Some start \<and> cd_estimated_end_date cd = Some finish \<and>
      order_max <
        (if orders_of student_id db = [] then 0 else Max (set (orders_of student_id db))) + 1 \<longrightarrow>
      res_db (add_learning_path fw student_id request db) = db \<and>
      res_response (add_learning_path fw student_id request db) =
        HttpResponseServerError DataError) \<and>
   (\<forall>path_id.
      res_db (delete_learning_path fw path_id request db) = db \<or>
      learning_paths (res_db (delete_learning_path fw path_id request db)) =
        filter (\<lambda>p. lp_id p \<noteq> path_id) (learning_paths db))"
proof (intro conjI allI impI)
  fix sid uid admin student cd start finish
  assume h: "req_session request ''user_id'' = Some sid \<and> sid \<noteq> [] \<and> UUID fw sid = Some uid \<and>
      objects_get (\<lambda>u. user_id u = uid) (users db) = Inr admin \<and> user_is_admin admin \<and>
      req_method request = ''POST'' \<and>
      objects_get (\<lambda>s. student_pk s = student_id) (students db) = Inr student \<and>
      LearningPathForm_full_clean fw (req_now request) (new_form_instance_pk request)
        (req_POST request) = ([], cd) \<and>
      cd_start_date cd = Some start \<and> cd_estimated_end_date cd = Some finish \<and>
      req_uuid4 request \<notin> lp_id ` set (learning_paths db) \<and>
      (if orders_of student_id db = [] then 0 else Max (set (orders_of student_id db))) + 1
        \<le> order_max"
  let ?request = "request\<lparr>req_user := Some admin\<rparr>"
  let ?stage = "\<lparr>lp_id = req_uuid4 request, lp_student = student_pk student,
               lp_task_name = (case cd_task_name cd of None \<Rightarrow> [] | Some v \<Rightarrow> v),
               lp_start_date = start, lp_estimated_end_date = finish,
               lp_used_leave = cd_used_leave cd, lp_notes = cd_notes cd,
               lp_required_duration = (case cd_required_duration cd of None \<Rightarrow> [] | Some v \<Rightarrow> v),
               lp_is_completed = False, lp_order = existing_max_order student db + 1\<rparr>"
  have pk: "student_pk student = student_id"
    using h objects_get_InrD by fastforce
  have passes: "add_learning_path fw student_id request db =
      add_learning_path_body fw student_id ?request db"
    unfolding add_learning_path_def using h by (intro admin_required_passes) auto
  have body: "add_learning_path_body fw student_id ?request db =
      save_new_stage ?request student cd (existing_max_order student db) db"
    using h by (simp add: add_learning_path_body_def get_object_or_404_def new_form_instance_pk_def)
  have bound: "existing_max_order student db + 1 \<le> order_max"
    unfolding existing_max_order_eq pk using h by blast
  have rows: "learning_paths (res_db (add_learning_path fw student_id request db)) =
      learning_paths db @ [?stage]"
    using learning_paths_save_new_stage [of cd start finish ?request db "existing_max_order student db" student]
      h bound
    by (simp add: passes body)
  have order: "lp_order ?stage =
      (if orders_of student_id db = [] then 0 else Max (set (orders_of student_id db))) + 1"
    by (simp add: existing_max_order_eq pk)
  have top: "lp_order ?stage = k + 1"
    if "k \<in> set (orders_of student_id db)" "\<forall>n \<in> set (orders_of student_id db). n \<le> k" for k
  proof -
    have "Max (set (orders_of student_id db)) = k"
      using that by (intro Max_eqI) auto
    then show ?thesis
      using that(1) by (auto simp: existing_max_order_eq pk)
  qed
  show "\<exists>stage.
         learning_paths (res_db (add_learning_path fw student_id request db)) =
           learning_paths db @ [stage] \<and>
         lp_student stage = student_id \<and> \<not> lp_is_completed stage \<and>
         lp_order stage =
           (if orders_of student_id db = [] then 0 else Max (set (orders_of student_id db))) + 1 \<and>
         (orders_of student_id db = [] \<longrightarrow> lp_order stage = 1) \<and>
         (\<forall>k. k \<in> set (orders_of student_id db) \<and> (\<forall>n \<in> set (orders_of student_id db). n \<le> k) \<longrightarrow>
              lp_order stage = k + 1)"
  proof (intro exI [of _ ?stage] conjI allI impI)
    show "learning_paths (res_db (add_learning_path fw student_id request db)) =
      learning_paths db @ [?stage]" by (rule rows)
    show "lp_student ?stage = student_id" by (simp add: pk)
    show "\<not> lp_is_completed ?stage" by simp
    show "lp_order ?stage =
      (if orders_of student_id db = [] then 0 else Max (set (orders_of student_id db))) + 1"
      by (rule order)
    show "lp_order ?stage = 1" if "orders_of student_id db = []"
      using that by (simp add: existing_max_order_eq pk)
    show "lp_order ?stage = k + 1"
      if "k \<in> set (orders_of student_id db) \<and> (\<forall>n \<in> set (orders_of student_id db). n \<le> k)" for k
      using that top by blast
  qed
next
  fix sid uid admin student cd start finish
  assume h: "req_session request ''user_id'' = Some sid \<and> sid \<noteq> [] \<and> UUID fw sid = Some uid \<and>
      objects_get (\<lambda>u. user_id u = uid) (users db) = Inr admin \<and> user_is_admin admin \<and>
      req_method request = ''POST'' \<and>
      objects_get (\<lambda>s. student_pk s = student_id) (students db) = Inr student \<and>
      LearningPathForm_full_clean fw (req_now request) (new_form_instance_pk request)
        (req_POST request) = ([], cd) \<and>
      cd_start_date cd = Some start \<and> cd_estimated_end_date cd = Some finish \<and>
      order_max <
        (if orders_of student_id db = [] then 0 else Max (set (orders_of student_id db))) + 1"
  let ?request = "request\<lparr>req_user := Some admin\<rparr>"
  have pk: "student_pk student = student_id"
    using h objects_get_InrD by fastforce
  have passes: "add_learning_path fw student_id request db =
      add_learning_path_body fw student_id ?request db"
    unfolding add_learning_path_def using h by (intro admin_required_passes) auto
  have body: "add_learning_path_body fw student_id ?request db =
      save_new_stage ?request student cd (existing_max_order student db) db"
    using h by (simp add: add_learning_path_body_def get_object_or_404_def new_form_instance_pk_def)
  have beyond: "order_max < existing_max_order student db + 1"
    unfolding existing_max_order_eq pk using h by blast
  have fails: "add_learning_path fw student_id request db =
      raise DataError db (req_session request) []"
    using save_new_stage_out_of_range [of cd start finish "existing_max_order student db" ?request student db]
      h beyond
    by (simp add: passes body)
  show "res_db (add_learning_path fw student_id request db) = db"
    and "res_response (add_learning_path fw student_id request db) =
        HttpResponseServerError DataError"
    by (simp_all add: fails raise_def)
next
  fix path_id
  show "res_db (delete_learning_path fw path_id request db) = db \<or>
      learning_paths (res_db (delete_learning_path fw path_id request db)) =
        filter (\<lambda>p. lp_id p \<noteq> path_id) (learning_paths db)"
    by (rule delete_learning_path_cases)
qed

text \<open>
  On the example: the student has the stages of orders 1 and 3, and the new stage gets
  order 4; with no stage so far, the new stage gets order 1; with a stage of order
  2147483647, the table stays as it is. Deleting the stage of order 1 leaves the stage
  of order 3 as it is.
\<close>

theorem add_learning_path_next_order_witness:
  "orders_of 10 ex_db = [1, 3] \<and>
   map lp_order (learning_paths (res_db (add_learning_path ex_framework 10
       (ex_post [] [(''user_id'', ''7'')] 31) ex_db))) = [1, 3, 4] \<and>
   map lp_is_completed (learning_paths (res_db (add_learning_path ex_framework 10
       (ex_post [] [(''user_id'', ''7'')] 31) ex_db))) = [False, False, False] \<and>
   map lp_order (learning_paths (res_db (add_learning_path ex_framework 10
       (ex_post [] [(''user_id'', ''7'')] 31) (ex_db\<lparr>learning_paths := []\<rparr>)))) = [1] \<and>
   res_db (add_learning_path ex_framework 10 (ex_post [] [(''user_id'', ''7'')] 31)
       (ex_db\<lparr>learning_paths := [ex_path 23 2147483647]\<rparr>)) =
     ex_db\<lparr>learning_paths := [ex_path 23 2147483647]\<rparr> \<and>
   learning_paths (res_db (delete_learning_path ex_framework 21 (ex_post [] [] 0) ex_db)) =
     [ex_path 23 3]"
proof -
  let ?request = "ex_post [] [(''user_id'', ''7'')] 31"
  let ?cd = "ex_cleaned\<lparr>cd_used_leave := None, cd_notes := None\<rparr>"
  let ?none = "ex_db\<lparr>learning_paths := []\<rparr>"
  let ?full = "ex_db\<lparr>learning_paths := [ex_path 23 2147483647]\<rparr>"
  have strip: "strip ''2 weeks'' = ''2 weeks''"
    by (simp add: strip_def isspace_def)
  have valid: "LearningPathForm_full_clean ex_framework (req_now ?request)
      (new_form_instance_pk ?request) (req_POST ?request) = ([], ?cd)"
    by (simp add: LearningPathForm_full_clean_def LearningPathForm_clean_def
        clean_required_duration_def ex_framework_def ex_cleaned_def not_str_def strip
        combine_min_def dt_less_def dt_key_def mk_datetime_def ex_post_def new_form_instance_pk_def)
  have orders: "orders_of 10 ex_db = [1, 3]"
    by (simp add: orders_of_def ex_db_def ex_path_def)
  have guard: "req_session ?request ''user_id'' = Some ''7'' \<and> ''7'' \<noteq> [] \<and>
      UUID ex_framework ''7'' = Some 7 \<and> user_is_admin ex_admin \<and>
      req_method ?request = ''POST'' \<and>
      cd_start_date ?cd = Some (mk_datetime 2025 6 10 9 0) \<and>
      cd_estimated_end_date ?cd = Some (mk_datetime 2025 6 24 17 0)"
    by (simp add: ex_post_def ex_framework_def ex_admin_def ex_cleaned_def)
  have tables: "objects_get (\<lambda>u. user_id u = 7) (users (ex_db\<lparr>learning_paths := paths\<rparr>)) = Inr ex_admin \<and>
      objects_get (\<lambda>s. student_pk s = 10) (students (ex_db\<lparr>learning_paths := paths\<rparr>)) = Inr ex_student"
    for paths
    by (simp add: objects_get_def ex_db_def ex_admin_def ex_user_def ex_student_def)
  have tables0: "objects_get (\<lambda>u. user_id u = 7) (users ex_db) = Inr ex_admin \<and>
      objects_get (\<lambda>s. student_pk s = 10) (students ex_db) = Inr ex_student"
    by (simp add: objects_get_def ex_db_def ex_admin_def ex_user_def ex_student_def)
  have h: "req_session ?request ''user_id'' = Some ''7'' \<and> ''7'' \<noteq> [] \<and>
      UUID ex_framework ''7'' = Some 7 \<and>
      objects_get (\<lambda>u. user_id u = 7) (users ex_db) = Inr ex_admin \<and> user_is_admin ex_admin \<and>
      req_method ?request = ''POST'' \<and>
      objects_get (\<lambda>s. student_pk s = 10) (students ex_db) = Inr ex_student \<and>
      LearningPathForm_full_clean ex_framework (req_now ?request) (new_form_instance_pk ?request)
        (req_POST ?request) = ([], ?cd) \<and>
      cd_start_date ?cd = Some (mk_datetime 2025 6 10 9 0) \<and>
      cd_estimated_end_date ?cd = Some (mk_datetime 2025 6 24 17 0) \<and>
      req_uuid4 ?request \<notin> lp_id ` set (learning_paths ex_db) \<and>
      (if orders_of 10 ex_db = [] then 0 else Max (set (orders_of 10 ex_db))) + 1 \<le> order_max"
    using guard tables0 valid unfolding orders
    by (intro conjI) (simp_all add: ex_post_def ex_db_def ex_path_def order_max_def)
  from add_learning_path_next_order [THEN conjunct1, rule_format, OF h]
  obtain stage where
    rows: "learning_paths (res_db (add_learning_path ex_framework 10 ?request ex_db)) =
             learning_paths ex_db @ [stage]"
    and flag: "\<not> lp_is_completed stage"
    and order: "lp_order stage =
             (if orders_of 10 ex_db = [] then 0 else Max (set (orders_of 10 ex_db))) + 1"
    by blast
  have four: "lp_order stage = 4"
    unfolding order orders by simp
  have before: "map lp_order (learning_paths ex_db) = [1, 3]"
    "map lp_is_completed (learning_paths ex_db) = [False, False]"
    by (simp_all add: ex_db_def ex_path_def)
  have added: "map lp_order (learning_paths (res_db (add_learning_path ex_framework 10 ?request ex_db))) =
      [1, 3, 4] \<and>
    map lp_is_completed (learning_paths (res_db (add_learning_path ex_framework 10 ?request ex_db))) =
      [False, False, False]"
    by (simp add: rows four flag before)
  have none: "orders_of 10 ?none = []"
    by (simp add: orders_of_def)
  have h0: "req_session ?request ''user_id'' = Some ''7'' \<and> ''7'' \<noteq> [] \<and>
      UUID ex_framework ''7'' = Some 7 \<and>
      objects_get (\<lambda>u. user_id u = 7) (users ?none) = Inr ex_admin \<and> user_is_admin ex_admin \<and>
      req_method ?request = ''POST'' \<and>
      objects_get (\<lambda>s. student_pk s = 10) (students ?none) = Inr ex_student \<and>
      LearningPathForm_full_clean ex_framework (req_now ?request) (new_form_instance_pk ?request)
        (req_POST ?request) = ([], ?cd) \<and>
      cd_start_date ?cd = Some (mk_datetime 2025 6 10 9 0) \<and>
      cd_estimated_end_date ?cd = Some (mk_datetime 2025 6 24 17 0) \<and>
      req_uuid4 ?request \<notin> lp_id ` set (learning_paths ?none) \<and>
      (if orders_of 10 ?none = [] then 0 else Max (set (orders_of 10 ?none))) + 1 \<le> order_max"
    using guard tables [of "[]"] valid unfolding none
    by (intro conjI) (simp_all add: order_max_def)
  from add_learning_path_next_order [THEN conjunct1, rule_format, OF h0]
  obtain stage0 where
    rows0: "learning_paths (res_db (add_learning_path ex_framework 10 ?request ?none)) =
             learning_paths ?none @ [stage0]"
    and order0: "orders_of 10 ?none = [] \<longrightarrow> lp_order stage0 = 1"
    by blast
  have one: "map lp_order (learning_paths (res_db (add_learning_path ex_framework 10 ?request ?none))) = [1]"
    unfolding rows0 using order0 none by simp
  have top: "orders_of 10 ?full = [2147483647]"
    by (simp add: orders_of_def ex_path_def)
  have h1: "req_session ?request ''user_id'' = Some ''7'' \<and> ''7'' \<noteq> [] \<and>
      UUID ex_framework ''7'' = Some 7 \<and>
      objects_get (\<lambda>u. user_id u = 7) (users ?full) = Inr ex_admin \<and> user_is_admin ex_admin \<and>
      req_method ?request = ''POST'' \<and>
      objects_get (\<lambda>s. student_pk s = 10) (students ?full) = Inr ex_student \<and>
      LearningPathForm_full_clean ex_framework (req_now ?request) (new_form_instance_pk ?request)
        (req_POST ?request) = ([], ?cd) \<and>
      cd_start_date ?cd = Some (mk_datetime 2025 6 10 9 0) \<and>
      cd_estimated_end_date ?cd = Some (mk_datetime 2025 6 24 17 0) \<and>
      order_max < (if orders_of 10 ?full = [] then 0 else Max (set (orders_of 10 ?full))) + 1"
    using guard tables [of "[ex_path 23 2147483647]"] valid unfolding top
    by (intro conjI) (simp_all add: order_max_def)
  have beyond: "res_db (add_learning_path ex_framework 10 ?request ?full) = ?full"
    using add_learning_path_next_order [THEN conjunct2, THEN conjunct1, rule_format, OF h1]
    by blast
  have deleted: "learning_paths (res_db (delete_learning_path ex_framework 21 (ex_post [] [] 0) ex_db)) =
     [ex_path 23 3]"
    using add_learning_path_next_order [THEN conjunct2, THEN conjunct2, rule_format, of ex_framework 21 "ex_post [] [] 0" ex_db]
    by (simp add: delete_learning_path_def get_object_or_404_def objects_get_def respond_def
        LearningPath_delete_def ex_post_def ex_db_def ex_path_def)
  show ?thesis
    using orders added one beyond deleted by blast
qed

subsection \<open>Orders of a student under overlapping requests\<close>

text \<open>
  C6, as the specification states it: the orders of a student's stages hold no duplicate,
  also under concurrent \<^verbatim>\<open>add_learning_path\<close> requests. The view reads the greatest
  order and inserts the stage in two statements with no transaction around them and no
  uniqueness constraint in \<^verbatim>\<open>models.py\<close>: two requests that both read before either
  writes give their stages the same order. In the example the student has the orders 1
  and 3, and both new stages get 4.
\<close>

theorem overlapping_adds_duplicate_order:
  "distinct (orders_of 10 ex_db) \<and>
   orders_of 10
     (overlapping_adds ex_student (ex_post [] [(''user_id'', ''7'')] 31) ex_cleaned
        (ex_post [] [(''user_id'', ''7'')] 32) ex_cleaned ex_db) = [1, 3, 4, 4] \<and>
   \<not> distinct (orders_of 10
     (overlapping_adds ex_student (ex_post [] [(''user_id'', ''7'')] 31) ex_cleaned
        (ex_post [] [(''user_id'', ''7'')] 32) ex_cleaned ex_db))"
  by (simp add: overlapping_adds_def existing_max_order_def aggregate_Max_def save_new_stage_def
      LearningPath_insert_def order_max_def respond_def orders_of_def ex_db_def ex_path_def ex_student_def
      ex_cleaned_def ex_post_def)

lemma add_learning_path_keeps_distinct:
  assumes "distinct (orders_of sid db)"
  shows "distinct (orders_of sid (res_db (add_learning_path fw student_id request db)))"
proof -
  from add_learning_path_cases [of fw student_id request db]
  consider
    (same) "learning_paths (res_db (add_learning_path fw student_id request db)) = learning_paths db"
  | (more) student stage where "student_pk student = student_id" "lp_student stage = student_id"
      "lp_order stage = existing_max_order student db + 1"
      "learning_paths (res_db (add_learning_path fw student_id request db)) =
        learning_paths db @ [stage]"
    by blast
  then show ?thesis
  proof cases
    case same
    then show ?thesis using assms by (simp add: orders_of_def)
  next
    case more
    have "existing_max_order student db + 1 \<notin> set (orders_of student_id db)"
      using existing_max_order_bound [of "existing_max_order student db + 1" student db] more(1)
      by auto
    then show ?thesis
      using assms more by (auto simp: orders_of_def)
  qed
qed

text \<open>
  C6, amended: when the \<^verbatim>\<open>add_learning_path\<close> requests for a student are served one
  after the other, the orders of the stages of every student stay free of duplicates.
\<close>

theorem sequential_adds_keep_orders_distinct:
  "distinct (orders_of sid db) \<Longrightarrow>
   distinct (orders_of sid (add_seq fw student_id requests db))"
proof (induction requests arbitrary: db)
  case Nil
  then show ?case by simp
next
  case (Cons r rs)
  then show ?case
    using add_learning_path_keeps_distinct [of sid db fw student_id r] by simp
qed

theorem sequential_adds_keep_orders_distinct_witness:
  "distinct (orders_of 10 ex_db) \<and>
   distinct (orders_of 10
     (add_seq ex_framework 10
        [ex_post [] [(''user_id'', ''7'')] 31, ex_post [] [(''user_id'', ''7'')] 32] ex_db)) \<and>
   orders_of 10
     (add_seq ex_framework 10
        [ex_post [] [(''user_id'', ''7'')] 31, ex_post [] [(''user_id'', ''7'')] 32] ex_db) =
     [1, 3, 4, 5]"
proof -
  have d: "distinct (orders_of 10 ex_db)"
    by (simp add: orders_of_def ex_db_def ex_path_def)
  have strip: "strip ''2 weeks'' = ''2 weeks''"
    by (simp add: strip_def isspace_def)
  have run: "orders_of 10
     (add_seq ex_framework 10
        [ex_post [] [(''user_id'', ''7'')] 31, ex_post [] [(''user_id'', ''7'')] 32] ex_db) =
     [1, 3, 4, 5]"
    by (simp add: add_learning_path_def admin_required_def add_learning_path_body_def
        get_object_or_404_def objects_get_def not_str_def
        LearningPathForm_full_clean_def LearningPathForm_clean_def
        clean_required_duration_def strip combine_min_def dt_less_def dt_key_def mk_datetime_def
        new_form_instance_pk_def existing_max_order_def aggregate_Max_def save_new_stage_def
        LearningPath_insert_def order_max_def respond_def orders_of_def
        ex_framework_def ex_cleaned_def ex_post_def ex_db_def ex_admin_def ex_user_def
        ex_student_def ex_path_def)
  show ?thesis
    using d run
      sequential_adds_keep_orders_distinct [OF d, of ex_framework 10
        "[ex_post [] [(''user_id'', ''7'')] 31, ex_post [] [(''user_id'', ''7'')] 32]"]
    by blast
qed

subsection \<open>Validation of the dates of a stage\<close>

lemma dt_less_combine_min:
  "dt_less (combine_min a) (combine_min b) \<longleftrightarrow> dt_date a < dt_date b"
  by (auto simp: dt_less_def dt_key_def combine_min_def dt_date_def)

text \<open>
  C8. The specification has the form reject a start timestamp later than the end
  timestamp and, for a new record, a start date before today. \<^verbatim>\<open>clean\<close> replaces both
  values by their dates at midnight before it compares them, and applies the past-date
  rule when the instance of the form has no primary key: it raises its error exactly
  when the date of the start is later than the date of the end, or the date of the start
  is before today and the key is \<^verbatim>\<open>None\<close>. The instance of a form that was built
  without one (as \<^verbatim>\<open>add_learning_path\<close> builds it) has its key from \<^verbatim>\<open>uuid.uuid4\<close>, so
  the past-date rule applies to no form of the views.
\<close>

theorem LearningPathForm_clean_rejects_iff:
  assumes start: "cd_start_date cd = Some start"
    and finish: "cd_estimated_end_date cd = Some finish"
  shows "((\<exists>e. LearningPathForm_clean now pk cd = Inl e) \<longleftrightarrow>
            dt_date finish < dt_date start \<or> (dt_date start < dt_date now \<and> pk = None)) \<and>
         ((\<exists>e. LearningPathForm_clean (req_now request) (new_form_instance_pk request) cd = Inl e) \<longleftrightarrow>
            dt_date finish < dt_date start)"
  using assms
  by (auto simp: LearningPathForm_clean_def Let_def dt_less_combine_min new_form_instance_pk_def
           split: option.splits)

text \<open>
  On the example, served on 2 June 2025: a new stage that starts on 1 June is valid and
  \<^verbatim>\<open>add_learning_path\<close> saves it; and a stage that starts on 10 June at 15:00 and ends
  on 10 June at 10:00 is valid.
\<close>

theorem LearningPathForm_clean_rejects_iff_witness:
  "dt_less (mk_datetime 2025 6 1 9 0) (combine_min (req_now (ex_post [] [(''user_id'', ''7'')] 31))) \<and>
   (\<nexists>e. LearningPathForm_clean (req_now (ex_post [] [(''user_id'', ''7'')] 31))
            (new_form_instance_pk (ex_post [] [(''user_id'', ''7'')] 31))
            (ex_cleaned\<lparr>cd_start_date := Some (mk_datetime 2025 6 1 9 0)\<rparr>) = Inl e) \<and>
   map lp_start_date
     (learning_paths (res_db
        (add_learning_path
           (ex_framework\<lparr>clean_fields :=
              \<lambda>data. ([], ex_cleaned\<lparr>cd_start_date := Some (mk_datetime 2025 6 1 9 0)\<rparr>)\<rparr>)
           10 (ex_post [] [(''user_id'', ''7'')] 31) ex_db))) =
     [mk_datetime 2025 4 2 9 0, mk_datetime 2025 4 2 9 0, mk_datetime 2025 6 1 9 0] \<and>
   dt_less (mk_datetime 2025 6 10 10 0) (mk_datetime 2025 6 10 15 0) \<and>
   (\<nexists>e. LearningPathForm_clean (mk_datetime 2025 6 2 12 30) None
            (ex_cleaned\<lparr>cd_start_date := Some (mk_datetime 2025 6 10 15 0),
                         cd_estimated_end_date := Some (mk_datetime 2025 6 10 10 0)\<rparr>) = Inl e)"
proof -
  let ?request = "ex_post [] [(''user_id'', ''7'')] 31"
  let ?past = "ex_cleaned\<lparr>cd_start_date := Some (mk_datetime 2025 6 1 9 0)\<rparr>"
  let ?same_day = "ex_cleaned\<lparr>cd_start_date := Some (mk_datetime 2025 6 10 15 0),
                         cd_estimated_end_date := Some (mk_datetime 2025 6 10 10 0)\<rparr>"
  have past: "dt_less (mk_datetime 2025 6 1 9 0) (combine_min (req_now ?request))"
    by (simp add: dt_less_def dt_key_def combine_min_def mk_datetime_def ex_post_def)
  have p1: "cd_start_date ?past = Some (mk_datetime 2025 6 1 9 0)"
    and p2: "cd_estimated_end_date ?past = Some (mk_datetime 2025 6 24 17 0)"
    by (simp_all add: ex_cleaned_def)
  have p3: "\<not> dt_date (mk_datetime 2025 6 24 17 0) < dt_date (mk_datetime 2025 6 1 9 0)"
    by (simp add: dt_date_def mk_datetime_def)
  have new: "\<nexists>e. LearningPathForm_clean (req_now ?request) (new_form_instance_pk ?request) ?past = Inl e"
    using LearningPathForm_clean_rejects_iff [OF p1 p2, THEN conjunct2, of ?request] p3 by simp
  have strip: "strip ''2 weeks'' = ''2 weeks''"
    by (simp add: strip_def isspace_def)
  have saved: "map lp_start_date
     (learning_paths (res_db
        (add_learning_path (ex_framework\<lparr>clean_fields := \<lambda>data. ([], ?past)\<rparr>)
           10 ?request ex_db))) =
     [mk_datetime 2025 4 2 9 0, mk_datetime 2025 4 2 9 0, mk_datetime 2025 6 1 9 0]"
    by (simp add: add_learning_path_def admin_required_def add_learning_path_body_def
        get_object_or_404_def objects_get_def not_str_def
        LearningPathForm_full_clean_def LearningPathForm_clean_def
        clean_required_duration_def strip combine_min_def dt_less_def dt_key_def mk_datetime_def
        new_form_instance_pk_def existing_max_order_def aggregate_Max_def save_new_stage_def
        LearningPath_insert_def order_max_def respond_def
        ex_framework_def ex_cleaned_def ex_post_def ex_db_def ex_admin_def ex_user_def
        ex_student_def ex_path_def)
  have later: "dt_less (mk_datetime 2025 6 10 10 0) (mk_datetime 2025 6 10 15 0)"
    by (simp add: dt_less_def dt_key_def mk_datetime_def)
  have s1: "cd_start_date ?same_day = Some (mk_datetime 2025 6 10 15 0)"
    and s2: "cd_estimated_end_date ?same_day = Some (mk_datetime 2025 6 10 10 0)"
    by (simp_all add: ex_cleaned_def)
  have s3: "\<not> dt_date (mk_datetime 2025 6 10 10 0) < dt_date (mk_datetime 2025 6 10 15 0)"
    and s4: "\<not> dt_date (mk_datetime 2025 6 10 15 0) < dt_date (mk_datetime 2025 6 2 12 30)"
    by (simp_all add: dt_date_def mk_datetime_def)
  have same_day: "\<nexists>e. LearningPathForm_clean (mk_datetime 2025 6 2 12 30) None ?same_day = Inl e"
    using LearningPathForm_clean_rejects_iff [OF s1 s2, THEN conjunct1, of "mk_datetime 2025 6 2 12 30" None]
      s3 s4 by simp
  show ?thesis
    using past new saved later same_day by blast
qed

subsection \<open>Rows of \<^verbatim>\<open>users\<close> through login requests\<close>

lemma filter_map_same:
  "(\<And>x. x \<in> set xs \<Longrightarrow> p (f x) \<longleftrightarrow> p x) \<Longrightarrow> filter p (map f xs) = map f (filter p xs)"
  by (induction xs) auto

lemma get_by_key:
  "distinct (map user_id rows) \<Longrightarrow> u \<in> set rows \<Longrightarrow>
   objects_get (\<lambda>r. user_id r = user_id u) rows = Inr u"
proof -
  assume pk: "distinct (map user_id rows)" and mem: "u \<in> set rows"
  have "filter (\<lambda>r. user_id r = user_id u) rows = [u]"
    using pk mem
  proof (induction rows)
    case Nil
    then show ?case by simp
  next
    case (Cons a rows)
    show ?case
    proof (cases "a = u")
      case True
      have "filter (\<lambda>r. user_id r = user_id u) rows = []"
        using Cons.prems(1) True by (auto simp: filter_empty_conv image_iff)
      then show ?thesis using True by simp
    next
      case False
      then have "u \<in> set rows" using Cons.prems(2) by simp
      moreover have "user_id a \<noteq> user_id u"
        using Cons.prems(1) calculation by auto
      ultimately show ?thesis using Cons by simp
    qed
  qed
  then show ?thesis by (simp add: objects_get_Inr_iff)
qed

lemma keys_User_save:
  "u \<in> set (users db) \<Longrightarrow> user_id v = user_id u \<Longrightarrow>
   map user_id (users (User_save now v db)) = map user_id (users db)"
  by (simp add: users_User_save_present)

lemma get_by_email_after_save:
  assumes pk: "distinct (map user_id (users db))"
    and found: "objects_get (\<lambda>u. user_email u = email) (users db) = Inr user"
    and key: "user_id v = user_id user" and same: "user_email v = email"
  shows "objects_get (\<lambda>u. user_email u = email) (users (User_save now v db)) =
           Inr (v\<lparr>user_updated_at := now\<rparr>)"
proof -
  let ?f = "\<lambda>r. if user_id r = user_id user then v\<lparr>user_updated_at := now\<rparr> else r"
  have mem: "user \<in> set (users db)" and mail: "user_email user = email"
    using objects_get_InrD [OF found] by simp_all
  have "user_email (?f x) = email \<longleftrightarrow> user_email x = email" if "x \<in> set (users db)" for x
    using same_key_same_row [OF pk that mem] same mail by auto
  then have "filter (\<lambda>u. user_email u = email) (map ?f (users db)) =
      map ?f (filter (\<lambda>u. user_email u = email) (users db))"
    by (intro filter_map_same) simp
  also have "\<dots> = [v\<lparr>user_updated_at := now\<rparr>]"
    using found by (simp add: objects_get_Inr_iff)
  finally show ?thesis
    by (simp add: objects_get_Inr_iff users_User_save_present [OF mem key])
qed

lemma login_keeps_refl: "login_keeps r r"
  by (simp add: login_keeps_def)

lemma login_keeps_trans:
  assumes ab: "login_keeps a b" and bc: "login_keeps b c"
  shows "login_keeps a c"
proof (cases "user_is_admin a")
  case True
  then have "user_is_admin b"
    using ab by (simp add: login_keeps_def)
  then show ?thesis
    using True ab bc by (auto simp: login_keeps_def)
next
  case plain: False
  show ?thesis
  proof (cases "user_is_locked a")
    case True
    then have "b = a"
      using plain ab by (simp add: login_keeps_def)
    then show ?thesis
      using bc by simp
  next
    case unlocked: False
    show ?thesis
    proof (cases "user_is_locked b")
      case True
      then have "\<not> user_is_admin b"
        using plain ab by (simp add: login_keeps_def)
      then have "c = b"
        using True bc by (simp add: login_keeps_def)
      then show ?thesis
        using ab by simp
    next
      case False
      then have "\<not> user_is_admin b"
        using plain ab by (simp add: login_keeps_def)
      then show ?thesis
        using False plain unlocked ab bc by (auto simp: login_keeps_def)
    qed
  qed
qed

lemma list_all2_login_keeps_refl: "list_all2 login_keeps rows rows"
  by (simp add: list_all2_same login_keeps_refl)

lemma login_keeps_key: "login_keeps x y \<Longrightarrow> user_id y = user_id x"
  unfolding login_keeps_def by blast

lemma login_keeps_email: "login_keeps x y \<Longrightarrow> user_email y = user_email x"
  unfolding login_keeps_def by blast

lemma login_keeps_password: "login_keeps x y \<Longrightarrow> user_password y = user_password x"
  unfolding login_keeps_def by blast

lemma login_keeps_is_admin: "login_keeps x y \<Longrightarrow> user_is_admin y = user_is_admin x"
  unfolding login_keeps_def by blast

lemma login_keeps_admin:
  "login_keeps x y \<Longrightarrow> user_is_admin x \<Longrightarrow>
   user_is_locked y = user_is_locked x \<and>
   (user_failed_login_attempts y = user_failed_login_attempts x \<or>
    user_failed_login_attempts y = 0)"
  unfolding login_keeps_def by blast

lemma login_keeps_locked:
  "login_keeps x y \<Longrightarrow> \<not> user_is_admin x \<Longrightarrow> user_is_locked x \<Longrightarrow> y = x"
  unfolding login_keeps_def by blast

lemma login_keeps_change:
  "login_keeps x y \<Longrightarrow> user_is_locked y \<noteq> user_is_locked x \<Longrightarrow>
   \<not> user_is_admin x \<and> user_is_locked y \<and> 5 \<le> user_failed_login_attempts y"
  unfolding login_keeps_def by blast

lemma login_keeps_keys:
  "list_all2 login_keeps xs ys \<Longrightarrow> map user_id ys = map user_id xs"
  by (induction rule: list_all2_induct) (simp_all add: login_keeps_key)

lemma login_keeps_mem:
  "list_all2 login_keeps xs ys \<Longrightarrow> x \<in> set xs \<Longrightarrow> \<exists>y \<in> set ys. login_keeps x y"
  by (induction rule: list_all2_induct) auto

lemma login_keeps_mem_rev:
  "list_all2 login_keeps xs ys \<Longrightarrow> y \<in> set ys \<Longrightarrow> \<exists>x \<in> set xs. login_keeps x y"
  by (induction rule: list_all2_induct) auto

lemma login_keeps_filter_email:
  "list_all2 login_keeps xs ys \<Longrightarrow>
   (\<And>x. x \<in> set xs \<Longrightarrow> user_email x = email \<Longrightarrow> \<not> user_is_admin x \<and> user_is_locked x) \<Longrightarrow>
   filter (\<lambda>u. user_email u = email) ys = filter (\<lambda>u. user_email u = email) xs"
proof (induction rule: list_all2_induct)
  case Nil
  then show ?case by simp
next
  case (Cons x xs y ys)
  have rest: "filter (\<lambda>u. user_email u = email) ys = filter (\<lambda>u. user_email u = email) xs"
    using Cons.IH Cons.prems by simp
  show ?case
  proof (cases "user_email x = email")
    case True
    then have "y = x"
      using Cons.hyps(1) Cons.prems [of x] login_keeps_locked by simp
    then show ?thesis using rest by simp
  next
    case False
    then have "user_email y \<noteq> email"
      using Cons.hyps(1) by (simp add: login_keeps_email)
    then show ?thesis using False rest by simp
  qed
qed

lemma save_keeps:
  assumes pk: "distinct (map user_id (users db))"
    and found: "user \<in> set (users db)"
    and key: "user_id v = user_id user"
    and keeps: "login_keeps user (v\<lparr>user_updated_at := now\<rparr>)"
  shows "list_all2 login_keeps (users db) (users (User_save now v db))"
proof -
  have "login_keeps x (if user_id x = user_id user then v\<lparr>user_updated_at := now\<rparr> else x)"
    if "x \<in> set (users db)" for x
    using that same_key_same_row [OF pk that found] keeps by (auto simp: login_keeps_refl)
  then show ?thesis
    by (simp add: users_User_save_present [OF found key] list_all2_map2 list_all2_same)
qed

lemma login_view_keeps:
  assumes pk: "distinct (map user_id (users db))"
  shows "list_all2 login_keeps (users db) (users (res_db (login_view fw request db)))"
proof (cases "objects_get (\<lambda>u. user_email u = the (req_POST request ''email'')) (users db)")
  case (Inl e)
  then show ?thesis
    by (auto simp: login_view_def respond_def raise_def list_all2_login_keeps_refl
             split: option.splits)
next
  case (Inr user)
  then have found: "user \<in> set (users db)" by (simp add: objects_get_InrD)
  have s: "list_all2 login_keeps (users db) (users (User_save now v db))"
    if "user_id v = user_id user" "login_keeps user (v\<lparr>user_updated_at := now\<rparr>)" for v now
    using save_keeps [OF pk found that] .
  show ?thesis
    using Inr
    by (auto simp: login_view_def respond_def raise_def list_all2_login_keeps_refl Let_def
             split: option.splits intro!: s) (auto simp: login_keeps_def)
qed

lemma login_seq_keeps:
  "distinct (map user_id (users db)) \<Longrightarrow>
   list_all2 login_keeps (users db) (users (login_seq fw requests db))"
proof (induction requests arbitrary: db)
  case Nil
  then show ?case by (simp add: list_all2_login_keeps_refl)
next
  case (Cons r rs)
  let ?db = "res_db (login_view fw r db)"
  have step: "list_all2 login_keeps (users db) (users ?db)"
    using Cons.prems by (rule login_view_keeps)
  then have "distinct (map user_id (users ?db))"
    using Cons.prems by (simp add: login_keeps_keys)
  then have "list_all2 login_keeps (users ?db) (users (login_seq fw rs ?db))"
    by (rule Cons.IH)
  then show ?case
    using list_all2_trans [OF login_keeps_trans step] by simp
qed

lemma login_view_locked:
  assumes "req_method request = ''POST''" and "req_POST request ''email'' = Some email"
    and "email \<noteq> []"
    and "objects_get (\<lambda>u. user_email u = email) (users db) = Inr user"
    and "\<not> user_is_admin user" and "user_is_locked user"
  shows "res_db (login_view fw request db) = db \<and>
         res_session (login_view fw request db) = req_session request \<and>
         res_response (login_view fw request db) = Render ''login.html'' \<and>
         (\<not> not_str (req_POST request ''password'') \<longrightarrow>
            res_messages (login_view fw request db) =
              [(ERROR, ''Your account is locked. Please contact an admin.'')])"
  using assms
  by (auto simp: login_view_def respond_def not_str_def split: option.splits)

subsection \<open>Toggle and login, one request\<close>

lemma toggle_lock_user_passes:
  assumes guard: "req_session request ''user_id'' = Some sid" "sid \<noteq> []" "UUID fw sid = Some aid"
      "objects_get (\<lambda>u. user_id u = aid) (users db) = Inr admin" "user_is_admin admin"
    and post: "req_method request = ''POST''"
    and target: "objects_get (\<lambda>u. user_id u = uid) (users db) = Inr user"
  shows "res_db (toggle_lock_user fw uid request db) =
           User_save (req_now request)
             (user\<lparr>user_is_locked := (req_POST request ''is_locked'' = Some ''on''),
                    user_failed_login_attempts := 0\<rparr>) db"
proof -
  have "toggle_lock_user fw uid request db =
      toggle_lock_user_body uid (request\<lparr>req_user := Some admin\<rparr>) db"
    unfolding toggle_lock_user_def using guard by (rule admin_required_passes)
  then show ?thesis
    using post target
    by (simp add: toggle_lock_user_body_def get_object_or_404_def respond_def Let_def)
qed

lemma login_view_succeeds:
  assumes "req_method request = ''POST''"
    and "req_POST request ''email'' = Some email" "email \<noteq> []"
    and "req_POST request ''password'' = Some password" "password \<noteq> []"
    and "objects_get (\<lambda>u. user_email u = email) (users db) = Inr user"
    and "\<not> user_is_locked user"
    and "verify_password fw password (user_password user)"
  shows "res_response (login_view fw request db) = Redirect ''dashboard'' \<and>
         res_session (login_view fw request db) ''user_id'' = Some (str_UUID fw (user_id user))"
  using assms by (simp add: login_view_def respond_def)

subsection \<open>Who changes a lock flag\<close>

lemma kept_same_users:
  "distinct (map user_id (users db)) \<Longrightarrow> users db' = users db \<Longrightarrow> lock_flags_kept db db'"
  unfolding lock_flags_kept_def using same_key_same_row by fastforce

lemma kept_map:
  assumes pk: "distinct (map user_id (users db))"
    and rows: "users db' = map f (users db)"
    and f: "\<And>r. r \<in> set (users db) \<Longrightarrow>
              user_id (f r) = user_id r \<and> user_is_locked (f r) = user_is_locked r"
  shows "lock_flags_kept db db'"
  unfolding lock_flags_kept_def
proof (intro ballI conjI impI)
  fix r' r
  assume "r' \<in> set (users db')" and r: "r \<in> set (users db)" and key: "user_id r = user_id r'"
  then obtain r0 where r0: "r0 \<in> set (users db)" "r' = f r0"
    using rows by auto
  then have "r0 = r"
    using same_key_same_row [OF pk r0(1) r] f [OF r0(1)] key by simp
  then show "user_is_locked r' = user_is_locked r"
    using r0 f [OF r0(1)] by simp
next
  fix r'
  assume "r' \<in> set (users db')" and new: "user_id r' \<notin> user_id ` set (users db)"
  then obtain r0 where r0: "r0 \<in> set (users db)" "r' = f r0"
    using rows by auto
  then have "user_id r' \<in> user_id ` set (users db)"
    using f [OF r0(1)] by (metis imageI)
  then show "\<not> user_is_locked r'"
    using new by simp
qed

lemma kept_save:
  assumes pk: "distinct (map user_id (users db))"
    and mem: "u \<in> set (users db)"
    and key: "user_id v = user_id u" and flag: "user_is_locked v = user_is_locked u"
  shows "lock_flags_kept db (User_save now v db)"
proof (rule kept_map [OF pk users_User_save_present [OF mem key]])
  fix r
  assume "r \<in> set (users db)"
  then show "user_id (if user_id r = user_id u then v\<lparr>user_updated_at := now\<rparr> else r) = user_id r \<and>
         user_is_locked (if user_id r = user_id u then v\<lparr>user_updated_at := now\<rparr> else r) =
           user_is_locked r"
    using same_key_same_row [OF pk _ mem, of r] key flag by auto
qed

lemma kept_insert:
  assumes pk: "distinct (map user_id (users db))"
    and ins: "User_insert now v db = Inr db'" and flag: "\<not> user_is_locked v"
  shows "lock_flags_kept db db'"
proof -
  have fresh: "user_id v \<notin> user_id ` set (users db)"
    and rows: "users db' = users db @ [v\<lparr>user_updated_at := now\<rparr>]"
    using ins by (auto simp: User_insert_def list_ex_iff split: if_splits)
  show ?thesis
    unfolding lock_flags_kept_def rows
    using fresh flag same_key_same_row [OF pk] by (auto simp: image_iff)
qed

lemma kept_delete:
  assumes pk: "distinct (map user_id (users db))"
  shows "lock_flags_kept db (User_delete u db)"
  unfolding lock_flags_kept_def User_delete_def
  using same_key_same_row [OF pk] by (auto simp: image_iff)

lemma kept_guard:
  assumes "\<And>request'. lock_flags_kept db (res_db (view_func request' db))"
    and "lock_flags_kept db db"
  shows "lock_flags_kept db (res_db (admin_required fw view_func request db))"
  using admin_required_cases [of fw view_func request db] assms
  by (metis respond_def result.select_convs(1))

lemma kept_register_view:
  assumes pk: "distinct (map user_id (users db))"
  shows "lock_flags_kept db (res_db (register_view fw request db))"
  using kept_same_users [OF pk, of db] kept_insert [OF pk]
  by (auto simp: register_view_def respond_def raise_def new_User_def
           split: option.splits sum.splits)

lemma kept_add_user_view:
  assumes pk: "distinct (map user_id (users db))"
  shows "lock_flags_kept db (res_db (add_user_view fw request db))"
  unfolding add_user_view_def
proof (rule kept_guard)
  show "lock_flags_kept db db" using pk by (simp add: kept_same_users)
  show "lock_flags_kept db (res_db (add_user_view_body fw request' db))" for request'
    using kept_same_users [OF pk, of db] kept_insert [OF pk]
    by (auto simp: add_user_view_body_def respond_def raise_def new_User_def
             split: option.splits sum.splits)
qed

lemma kept_logout_view:
  assumes pk: "distinct (map user_id (users db))"
  shows "lock_flags_kept db (res_db (logout_view fw request db))"
proof -
  have same: "lock_flags_kept db db" using pk by (simp add: kept_same_users)
  have save: "lock_flags_kept db (User_save now (user\<lparr>user_last_logout := Some now\<rparr>) db)"
    if "objects_get (\<lambda>u. user_id u = uid) (users db) = Inr user" for uid user now
    using kept_save [OF pk, of user "user\<lparr>user_last_logout := Some now\<rparr>" now]
      objects_get_InrD [OF that] by simp
  show ?thesis
    using same save
    by (auto simp: logout_view_def respond_def raise_def Let_def split: option.splits sum.splits)
qed

lemma kept_dashboard_view:
  assumes pk: "distinct (map user_id (users db))"
  shows "lock_flags_kept db (res_db (dashboard_view fw request db))"
  using kept_same_users [OF pk, of db]
  by (auto simp: dashboard_view_def respond_def raise_def Let_def split: option.splits sum.splits)

lemma kept_list_users_view:
  assumes pk: "distinct (map user_id (users db))"
  shows "lock_flags_kept db (res_db (list_users_view fw request db))"
  unfolding list_users_view_def
  using kept_same_users [OF pk, of db]
  by (intro kept_guard) (simp_all add: list_users_view_body_def respond_def)

lemma kept_delete_user_view:
  assumes pk: "distinct (map user_id (users db))"
  shows "lock_flags_kept db (res_db (delete_user_view fw uid request db))"
  unfolding delete_user_view_def
proof (rule kept_guard)
  show same: "lock_flags_kept db db" using pk by (simp add: kept_same_users)
  show "lock_flags_kept db (res_db (delete_user_view_body uid request' db))" for request'
    using same kept_delete [OF pk]
    by (auto simp: delete_user_view_body_def respond_def raise_def split: sum.splits)
qed

lemma kept_update_user_view:
  assumes pk: "distinct (map user_id (users db))"
  shows "lock_flags_kept db (res_db (update_user_view fw uid request db))"
  unfolding update_user_view_def
proof (rule kept_guard)
  show same: "lock_flags_kept db db" using pk by (simp add: kept_same_users)
  show "lock_flags_kept db (res_db (update_user_view_body fw uid request' db))" for request'
  proof (cases "get_object_or_404 (\<lambda>u. user_id u = uid) (users db)")
    case (Inl e)
    then show ?thesis
      using same by (simp add: update_user_view_body_def raise_def)
  next
    case (Inr user)
    then have mem: "user \<in> set (users db)"
      using objects_get_InrD [of "\<lambda>u. user_id u = uid" "users db" user]
      by (auto simp: get_object_or_404_def split: sum.splits)
    have save: "lock_flags_kept db (User_save now v db)"
      if "user_id v = user_id user" "user_is_locked v = user_is_locked user" for v now
      using kept_save [OF pk mem that] .
    show ?thesis
      using Inr same
      by (auto simp: update_user_view_body_def respond_def split: option.splits intro!: save)
  qed
qed

lemma users_LearningPath_save [simp]: "users (LearningPath_save p db) = users db"
  by (simp add: LearningPath_save_def)

lemma users_LearningPath_delete [simp]: "users (LearningPath_delete p db) = users db"
  by (simp add: LearningPath_delete_def)

lemma users_save_new_stage [simp]:
  "users (res_db (save_new_stage request student cd max_order db)) = users db"
  by (auto simp: save_new_stage_def LearningPath_insert_def respond_def raise_def Let_def
           split: option.splits)

lemma users_guard:
  assumes "\<And>request'. users (res_db (view_func request' db)) = users db"
  shows "users (res_db (admin_required fw view_func request db)) = users db"
  using admin_required_cases [of fw view_func request db] assms
  by (metis respond_def result.select_convs(1))

lemma users_add_learning_path [simp]:
  "users (res_db (add_learning_path fw student_id request db)) = users db"
  unfolding add_learning_path_def
  by (rule users_guard)
    (auto simp: add_learning_path_body_def respond_def raise_def Let_def
          split: sum.splits prod.splits)

lemma users_complete_learning_path [simp]:
  "users (res_db (complete_learning_path fw path_id request db)) = users db"
  unfolding complete_learning_path_def
  by (rule users_guard)
    (auto simp: complete_learning_path_body_def respond_def raise_def split: sum.splits)

lemma users_delete_learning_path [simp]:
  "users (res_db (delete_learning_path fw path_id request db)) = users db"
  by (auto simp: delete_learning_path_def respond_def raise_def split: sum.splits)

lemma users_update_learning_path [simp]:
  "users (res_db (update_learning_path fw path_id request db)) = users db"
  unfolding update_learning_path_def
  by (rule users_guard)
    (auto simp: update_learning_path_body_def respond_def raise_def Let_def
          split: sum.splits prod.splits)

text \<open>
  C3. On a table with distinct keys: through any run of login requests the row of an
  admin keeps its lock flag, and its counter stays or is reset to 0; a login request
  with an incorrect password for an admin leaves the database as it is. A login request
  changes a lock flag only by the automatic lockout (from unlocked to locked, on a user
  who is no admin, with a counter of 5 or more). Every other view but
  \<^verbatim>\<open>toggle_lock_user\<close> keeps the lock flags. \<^verbatim>\<open>toggle_lock_user\<close>, posted by an admin,
  sets the lock flag of its target to the value of the request (\<^verbatim>\<open>is_locked=on\<close> or
  not) and its counter to 0, whatever they were. (The views of \<^verbatim>\<open>views.py\<close> on students,
  which are not modelled here, write no row of \<^verbatim>\<open>users\<close>.)
\<close>

theorem lock_flag_changes:
  assumes pk: "distinct (map user_id (users db))"
  shows
    "(\<forall>admin fw requests.
        admin \<in> set (users db) \<and> user_is_admin admin \<longrightarrow>
        (\<exists>row \<in> set (users (login_seq fw requests db)). user_id row = user_id admin) \<and>
        (\<forall>row \<in> set (users (login_seq fw requests db)).
           user_id row = user_id admin \<longrightarrow>
           user_is_locked row = user_is_locked admin \<and>
           (user_failed_login_attempts row = user_failed_login_attempts admin \<or>
            user_failed_login_attempts row = 0))) \<and>
     (\<forall>admin fw request email password.
        req_method request = ''POST'' \<and> req_POST request ''email'' = Some email \<and>
        req_POST request ''password'' = Some password \<and>
        objects_get (\<lambda>u. user_email u = email) (users db) = Inr admin \<and>
        user_is_admin admin \<and> \<not> verify_password fw password (user_password admin) \<longrightarrow>
        res_db (login_view fw request db) = db) \<and>
     (\<forall>fw request row row'.
        row \<in> set (users db) \<and> row' \<in> set (users (res_db (login_view fw request db))) \<and>
        user_id row' = user_id row \<and> user_is_locked row' \<noteq> user_is_locked row \<longrightarrow>
        \<not> user_is_admin row \<and> user_is_locked row' \<and> 5 \<le> user_failed_login_attempts row') \<and>
     (\<forall>fw request uid student_id path_id.
        lock_flags_kept db (res_db (register_view fw request db)) \<and>
        lock_flags_kept db (res_db (logout_view fw request db)) \<and>
        lock_flags_kept db (res_db (dashboard_view fw request db)) \<and>
        lock_flags_kept db (res_db (add_user_view fw request db)) \<and>
        lock_flags_kept db (res_db (list_users_view fw request db)) \<and>
        lock_flags_kept db (res_db (delete_user_view fw uid request db)) \<and>
        lock_flags_kept db (res_db (update_user_view fw uid request db)) \<and>
        lock_flags_kept db (res_db (add_learning_path fw student_id request db)) \<and>
        lock_flags_kept db (res_db (complete_learning_path fw path_id request db)) \<and>
        lock_flags_kept db (res_db (delete_learning_path fw path_id request db)) \<and>
        lock_flags_kept db (res_db (update_learning_path fw path_id request db))) \<and>
     (\<forall>fw request uid sid aid admin target.
        req_session request ''user_id'' = Some sid \<and> sid \<noteq> [] \<and> UUID fw sid = Some aid \<and>
        objects_get (\<lambda>u. user_id u = aid) (users db) = Inr admin \<and> user_is_admin admin \<and>
        req_method request = ''POST'' \<and>
        objects_get (\<lambda>u. user_id u = uid) (users db) = Inr target \<longrightarrow>
        users (res_db (toggle_lock_user fw uid request db)) =
          map (\<lambda>r. if user_id r = uid
                    then target\<lparr>user_is_locked := (req_POST request ''is_locked'' = Some ''on''),
                                user_failed_login_attempts := 0,
                                user_updated_at := req_now request\<rparr>
                    else r) (users db))"
proof (intro conjI allI impI)
  fix admin fw requests
  assume h: "admin \<in> set (users db) \<and> user_is_admin admin"
  have keeps: "list_all2 login_keeps (users db) (users (login_seq fw requests db))"
    using pk by (rule login_seq_keeps)
  show "\<exists>row \<in> set (users (login_seq fw requests db)). user_id row = user_id admin"
    using login_keeps_mem [OF keeps, of admin] h login_keeps_key by blast
  show "\<forall>row \<in> set (users (login_seq fw requests db)).
           user_id row = user_id admin \<longrightarrow>
           user_is_locked row = user_is_locked admin \<and>
           (user_failed_login_attempts row = user_failed_login_attempts admin \<or>
            user_failed_login_attempts row = 0)"
  proof (intro ballI impI)
    fix row
    assume row: "row \<in> set (users (login_seq fw requests db))" and key: "user_id row = user_id admin"
    obtain x where x: "x \<in> set (users db)" "login_keeps x row"
      using login_keeps_mem_rev [OF keeps row] by blast
    then have "x = admin"
      using same_key_same_row [OF pk x(1), of admin] h key login_keeps_key [OF x(2)] by simp
    then show "user_is_locked row = user_is_locked admin \<and>
           (user_failed_login_attempts row = user_failed_login_attempts admin \<or>
            user_failed_login_attempts row = 0)"
      using login_keeps_admin [OF x(2)] h by simp
  qed
next
  fix admin and fw :: framework and request :: request and email password
  assume "req_method request = ''POST'' \<and> req_POST request ''email'' = Some email \<and>
        req_POST request ''password'' = Some password \<and>
        objects_get (\<lambda>u. user_email u = email) (users db) = Inr admin \<and>
        user_is_admin admin \<and> \<not> verify_password fw password (user_password admin)"
  then show "res_db (login_view fw request db) = db"
    by (simp add: login_view_def respond_def)
next
  fix fw request row row'
  assume h: "row \<in> set (users db) \<and> row' \<in> set (users (res_db (login_view fw request db))) \<and>
        user_id row' = user_id row \<and> user_is_locked row' \<noteq> user_is_locked row"
  have keeps: "list_all2 login_keeps (users db) (users (res_db (login_view fw request db)))"
    using pk by (rule login_view_keeps)
  obtain x where x: "x \<in> set (users db)" "login_keeps x row'"
    using login_keeps_mem_rev [OF keeps, of row'] h by blast
  then have "x = row"
    using same_key_same_row [OF pk x(1), of row] h login_keeps_key [OF x(2)] by simp
  then have "\<not> user_is_admin row \<and> user_is_locked row' \<and> 5 \<le> user_failed_login_attempts row'"
    using login_keeps_change [OF x(2)] h by simp
  then show "\<not> user_is_admin row" and "user_is_locked row'"
    and "5 \<le> user_failed_login_attempts row'"
    by simp_all
next
  fix fw request uid student_id path_id
  show "lock_flags_kept db (res_db (register_view fw request db))"
    using pk by (rule kept_register_view)
  show "lock_flags_kept db (res_db (logout_view fw request db))"
    using pk by (rule kept_logout_view)
  show "lock_flags_kept db (res_db (dashboard_view fw request db))"
    using pk by (rule kept_dashboard_view)
  show "lock_flags_kept db (res_db (add_user_view fw request db))"
    using pk by (rule kept_add_user_view)
  show "lock_flags_kept db (res_db (list_users_view fw request db))"
    using pk by (rule kept_list_users_view)
  show "lock_flags_kept db (res_db (delete_user_view fw uid request db))"
    using pk by (rule kept_delete_user_view)
  show "lock_flags_kept db (res_db (update_user_view fw uid request db))"
    using pk by (rule kept_update_user_view)
  show "lock_flags_kept db (res_db (add_learning_path fw student_id request db))"
    using pk by (simp add: kept_same_users)
  show "lock_flags_kept db (res_db (complete_learning_path fw path_id request db))"
    using pk by (simp add: kept_same_users)
  show "lock_flags_kept db (res_db (delete_learning_path fw path_id request db))"
    using pk by (simp add: kept_same_users)
  show "lock_flags_kept db (res_db (update_learning_path fw path_id request db))"
    using pk by (simp add: kept_same_users)
next
  fix fw :: framework and request :: request and uid sid aid admin target
  assume h: "req_session request ''user_id'' = Some sid \<and> sid \<noteq> [] \<and> UUID fw sid = Some aid \<and>
        objects_get (\<lambda>u. user_id u = aid) (users db) = Inr admin \<and> user_is_admin admin \<and>
        req_method request = ''POST'' \<and>
        objects_get (\<lambda>u. user_id u = uid) (users db) = Inr target"
  then have t: "target \<in> set (users db)" "user_id target = uid"
    using objects_get_InrD [of "\<lambda>u. user_id u = uid" "users db" target] by simp_all
  have "res_db (toggle_lock_user fw uid request db) =
      User_save (req_now request)
        (target\<lparr>user_is_locked := (req_POST request ''is_locked'' = Some ''on''),
                user_failed_login_attempts := 0\<rparr>) db"
    using toggle_lock_user_passes [of request sid fw aid db admin uid target] h by simp
  then show "users (res_db (toggle_lock_user fw uid request db)) =
          map (\<lambda>r. if user_id r = uid
                    then target\<lparr>user_is_locked := (req_POST request ''is_locked'' = Some ''on''),
                                user_failed_login_attempts := 0,
                                user_updated_at := req_now request\<rparr>
                    else r) (users db)"
    using users_User_save_present [OF t(1), of "target\<lparr>user_is_locked := (req_POST request ''is_locked'' = Some ''on''),
                user_failed_login_attempts := 0\<rparr>" "req_now request"] t(2)
    by simp
qed

text \<open>
  On the example: the locked admin, whose counter is 3, fails a login and then logs in;
  the row is still locked, with counter 0. The toggle with \<^verbatim>\<open>is_locked=on\<close>, posted for
  the user \<^verbatim>\<open>a@b.com\<close> (counter 4), locks the row and sets its counter to 0.
\<close>

theorem lock_flag_changes_witness:
  "map (\<lambda>r. (user_id r, user_is_locked r, user_failed_login_attempts r))
     (users (login_seq ex_framework
        [ex_post [(''email'', ''root@b.com''), (''password'', ''wrong'')] [] 0,
         ex_post [(''email'', ''root@b.com''), (''password'', ''Root123!'')] [] 0] ex_db)) =
     [(7, True, 0), (8, False, 4)] \<and>
   res_db (login_view ex_framework
             (ex_post [(''email'', ''root@b.com''), (''password'', ''wrong'')] [] 0) ex_db) = ex_db \<and>
   map (\<lambda>r. (user_id r, user_is_locked r, user_failed_login_attempts r))
     (users (res_db (toggle_lock_user ex_framework 8
        (ex_post [(''is_locked'', ''on'')] [(''user_id'', ''7'')] 0) ex_db))) =
     [(7, True, 3), (8, True, 0)]"
proof -
  let ?wrong = "ex_post [(''email'', ''root@b.com''), (''password'', ''wrong'')] [] 0"
  let ?right = "ex_post [(''email'', ''root@b.com''), (''password'', ''Root123!'')] [] 0"
  let ?toggle = "ex_post [(''is_locked'', ''on'')] [(''user_id'', ''7'')] 0"
  have pk: "distinct (map user_id (users ex_db))"
    by (simp add: ex_db_def ex_admin_def ex_user_def)
  note main = lock_flag_changes [OF pk]
  have a: "req_method ?wrong = ''POST'' \<and> req_POST ?wrong ''email'' = Some ''root@b.com'' \<and>
        req_POST ?wrong ''password'' = Some ''wrong'' \<and>
        objects_get (\<lambda>u. user_email u = ''root@b.com'') (users ex_db) = Inr ex_admin \<and>
        user_is_admin ex_admin \<and> \<not> verify_password ex_framework ''wrong'' (user_password ex_admin)"
    by (simp add: ex_post_def objects_get_def ex_db_def ex_admin_def ex_user_def
        verify_password_def ex_framework_def)
  have same: "res_db (login_view ex_framework ?wrong ex_db) = ex_db"
    using main [THEN conjunct2, THEN conjunct1, rule_format, OF a] .
  have t: "req_session ?toggle ''user_id'' = Some ''7'' \<and> ''7'' \<noteq> [] \<and>
        UUID ex_framework ''7'' = Some 7 \<and>
        objects_get (\<lambda>u. user_id u = 7) (users ex_db) = Inr ex_admin \<and> user_is_admin ex_admin \<and>
        req_method ?toggle = ''POST'' \<and>
        objects_get (\<lambda>u. user_id u = 8) (users ex_db) = Inr ex_user"
    by (simp add: ex_post_def objects_get_def ex_db_def ex_admin_def ex_user_def ex_framework_def)
  have toggled: "map (\<lambda>r. (user_id r, user_is_locked r, user_failed_login_attempts r))
     (users (res_db (toggle_lock_user ex_framework 8 ?toggle ex_db))) = [(7, True, 3), (8, True, 0)]"
    unfolding main [THEN conjunct2, THEN conjunct2, THEN conjunct2, THEN conjunct2, rule_format, OF t]
    by (simp add: ex_post_def ex_db_def ex_admin_def ex_user_def)
  have run: "map (\<lambda>r. (user_id r, user_is_locked r, user_failed_login_attempts r))
     (users (login_seq ex_framework [?wrong, ?right] ex_db)) = [(7, True, 0), (8, False, 4)]"
    by (simp add: same)
      (simp add: login_view_def objects_get_def verify_password_def respond_def User_save_def
        ex_post_def ex_db_def ex_admin_def ex_user_def ex_framework_def)
  show ?thesis
    using run same toggled by blast
qed

subsection \<open>The lockout\<close>

text \<open>
  Every view keeps the rows with a given key locked and without the admin flag, but for
  the two requests that \<open>leaves_locked\<close> excludes; a login request for such a row is
  rejected before the password is looked at.
\<close>

lemma held_same_users:
  "held_locked uid db \<Longrightarrow> users db' = users db \<Longrightarrow> held_locked uid db'"
  by (simp add: held_locked_def)

lemma held_save:
  assumes held: "held_locked uid db"
    and mem: "u \<in> set (users db)"
    and key: "user_id v = user_id u"
    and flags: "user_id u = uid \<Longrightarrow> user_is_locked v \<and> \<not> user_is_admin v"
  shows "held_locked uid (User_save now v db)"
proof -
  have ids: "map user_id (users (User_save now v db)) = map user_id (users db)"
    using keys_User_save [OF mem key] .
  have "user_is_locked r \<and> \<not> user_is_admin r"
    if "r \<in> set (users (User_save now v db))" "user_id r = uid" for r
    using that held flags key
    unfolding held_locked_def users_User_save_present [OF mem key]
    by (auto split: if_splits)
  then show ?thesis
    using held ids by (simp add: held_locked_def)
qed

lemma held_insert:
  assumes held: "held_locked uid db"
    and ins: "User_insert now v db = Inr db'" and other: "user_id v \<noteq> uid"
  shows "held_locked uid db'"
proof -
  have fresh: "user_id v \<notin> user_id ` set (users db)"
    and rows: "users db' = users db @ [v\<lparr>user_updated_at := now\<rparr>]"
    using ins by (auto simp: User_insert_def list_ex_iff split: if_splits)
  show ?thesis
    using held fresh other unfolding held_locked_def rows by auto
qed

lemma held_delete:
  "held_locked uid db \<Longrightarrow> held_locked uid (User_delete u db)"
  by (auto simp: held_locked_def User_delete_def distinct_map_filter)

lemma held_guard:
  assumes "P db"
    and "\<And>user. P (res_db (view_func (request\<lparr>req_user := Some user\<rparr>) db))"
  shows "P (res_db (admin_required fw view_func request db))"
  using admin_required_cases [of fw view_func request db] assms
  by (metis respond_def result.select_convs(1))

lemma held_login_view:
  assumes held: "held_locked uid db"
  shows "held_locked uid (res_db (login_view fw request db))"
proof -
  have pk: "distinct (map user_id (users db))"
    using held by (simp add: held_locked_def)
  have keeps: "list_all2 login_keeps (users db) (users (res_db (login_view fw request db)))"
    using pk by (rule login_view_keeps)
  have "user_is_locked r' \<and> \<not> user_is_admin r'"
    if row: "r' \<in> set (users (res_db (login_view fw request db)))" and k: "user_id r' = uid" for r'
  proof -
    obtain x where x: "x \<in> set (users db)" "login_keeps x r'"
      using login_keeps_mem_rev [OF keeps row] by blast
    then have "user_id x = uid"
      using login_keeps_key [OF x(2)] k by simp
    then have "user_is_locked x \<and> \<not> user_is_admin x"
      using held x(1) by (simp add: held_locked_def)
    then show ?thesis
      using login_keeps_locked [OF x(2)] by auto
  qed
  then show ?thesis
    using pk login_keeps_keys [OF keeps] by (simp add: held_locked_def)
qed

lemma held_register_view:
  assumes held: "held_locked uid db" and key: "req_uuid4 request \<noteq> uid"
  shows "held_locked uid (res_db (register_view fw request db))"
  using held held_insert [OF held] key
  by (auto simp: register_view_def respond_def raise_def new_User_def
           split: option.splits sum.splits)

lemma held_add_user_view:
  assumes held: "held_locked uid db" and key: "req_uuid4 request \<noteq> uid"
  shows "held_locked uid (res_db (add_user_view fw request db))"
  unfolding add_user_view_def
proof (rule held_guard)
  show "held_locked uid db" by (rule held)
  show "held_locked uid (res_db (add_user_view_body fw (request\<lparr>req_user := Some user\<rparr>) db))" for user
    using held held_insert [OF held] key
    by (auto simp: add_user_view_body_def respond_def raise_def new_User_def
             split: option.splits sum.splits)
qed

lemma held_logout_view:
  assumes held: "held_locked uid db"
  shows "held_locked uid (res_db (logout_view fw request db))"
proof -
  have save: "held_locked uid (User_save now (user\<lparr>user_last_logout := Some now\<rparr>) db)"
    if "objects_get (\<lambda>u. user_id u = k) (users db) = Inr user" for k user now
  proof (rule held_save [OF held])
    show mem: "user \<in> set (users db)"
      using objects_get_InrD [OF that] by simp
    show "user_id (user\<lparr>user_last_logout := Some now\<rparr>) = user_id user" by simp
    show "user_is_locked (user\<lparr>user_last_logout := Some now\<rparr>) \<and>
        \<not> user_is_admin (user\<lparr>user_last_logout := Some now\<rparr>)" if "user_id user = uid"
      using held mem that by (simp add: held_locked_def)
  qed
  show ?thesis
    using held save
    by (auto simp: logout_view_def respond_def raise_def Let_def split: option.splits sum.splits)
qed

lemma held_dashboard_view:
  "held_locked uid db \<Longrightarrow> held_locked uid (res_db (dashboard_view fw request db))"
  by (auto simp: dashboard_view_def respond_def raise_def Let_def split: option.splits sum.splits)

lemma held_list_users_view:
  "held_locked uid db \<Longrightarrow> held_locked uid (res_db (list_users_view fw request db))"
  unfolding list_users_view_def
  by (rule held_guard) (simp_all add: list_users_view_body_def respond_def)

lemma held_delete_user_view:
  assumes held: "held_locked uid db"
  shows "held_locked uid (res_db (delete_user_view fw target request db))"
  unfolding delete_user_view_def
proof (rule held_guard)
  show "held_locked uid db" by (rule held)
  show "held_locked uid (res_db (delete_user_view_body target (request\<lparr>req_user := Some user\<rparr>) db))"
    for user
    using held held_delete [OF held]
    by (auto simp: delete_user_view_body_def respond_def raise_def split: sum.splits)
qed

lemma held_update_user_view:
  assumes held: "held_locked uid db"
    and plain: "target = uid \<Longrightarrow> req_POST request ''is_admin'' \<noteq> Some ''on''"
  shows "held_locked uid (res_db (update_user_view fw target request db))"
  unfolding update_user_view_def
proof (rule held_guard)
  show "held_locked uid db" by (rule held)
  fix admin
  let ?request = "request\<lparr>req_user := Some admin\<rparr>"
  show "held_locked uid (res_db (update_user_view_body fw target ?request db))"
  proof (cases "get_object_or_404 (\<lambda>u. user_id u = target) (users db)")
    case (Inl e)
    then show ?thesis
      using held by (simp add: update_user_view_body_def raise_def)
  next
    case (Inr user)
    then have mem: "user \<in> set (users db)" and key: "user_id user = target"
      using objects_get_InrD [of "\<lambda>u. user_id u = target" "users db" user]
      by (auto simp: get_object_or_404_def split: sum.splits)
    have flags: "user_is_locked user \<and> \<not> user_is_admin user" if "target = uid"
      using held mem key that by (simp add: held_locked_def)
    have save: "held_locked uid (User_save now v db)"
      if "user_id v = user_id user" "target = uid \<longrightarrow> user_is_locked v \<and> \<not> user_is_admin v" for v now
      using held_save [OF held mem that(1)] that(2) key by simp
    show ?thesis
      using Inr held flags plain
      by (auto simp: update_user_view_body_def respond_def split: option.splits intro!: save)
  qed
qed

lemma held_toggle_lock_user:
  assumes held: "held_locked uid db"
    and locks: "target = uid \<Longrightarrow> req_POST request ''is_locked'' = Some ''on''"
  shows "held_locked uid (res_db (toggle_lock_user fw target request db))"
  unfolding toggle_lock_user_def
proof (rule held_guard)
  show "held_locked uid db" by (rule held)
  fix admin
  let ?request = "request\<lparr>req_user := Some admin\<rparr>"
  show "held_locked uid (res_db (toggle_lock_user_body target ?request db))"
  proof (cases "get_object_or_404 (\<lambda>u. user_id u = target) (users db)")
    case (Inl e)
    then show ?thesis
      using held by (simp add: toggle_lock_user_body_def raise_def)
  next
    case (Inr user)
    then have mem: "user \<in> set (users db)" and key: "user_id user = target"
      using objects_get_InrD [of "\<lambda>u. user_id u = target" "users db" user]
      by (auto simp: get_object_or_404_def split: sum.splits)
    have flags: "\<not> user_is_admin user" if "target = uid"
      using held mem key that by (simp add: held_locked_def)
    have save: "held_locked uid (User_save now v db)"
      if "user_id v = user_id user" "target = uid \<longrightarrow> user_is_locked v \<and> \<not> user_is_admin v" for v now
      using held_save [OF held mem that(1)] that(2) key by simp
    show ?thesis
      using Inr held flags locks
      by (auto simp: toggle_lock_user_body_def respond_def Let_def intro!: save)
  qed
qed

lemma held_serve:
  assumes held: "held_locked uid db" and leaves: "leaves_locked uid (route, request)"
  shows "held_locked uid (res_db (serve fw route request db))"
proof (cases route)
  case Login
  then show ?thesis using held by (simp add: held_login_view)
next
  case Register
  then show ?thesis using held leaves by (simp add: held_register_view)
next
  case Logout
  then show ?thesis using held by (simp add: held_logout_view)
next
  case Dashboard
  then show ?thesis using held by (simp add: held_dashboard_view)
next
  case AddUser
  then show ?thesis using held leaves by (simp add: held_add_user_view)
next
  case ListUsers
  then show ?thesis using held by (simp add: held_list_users_view)
next
  case (DeleteUser target)
  then show ?thesis using held by (simp add: held_delete_user_view)
next
  case (UpdateUser target)
  then show ?thesis using held leaves by (simp add: held_update_user_view)
next
  case (ToggleLockUser target)
  then show ?thesis using held leaves by (simp add: held_toggle_lock_user)
next
  case (AddLearningPath student_id)
  then show ?thesis using held by (simp add: held_same_users)
next
  case (CompleteLearningPath path_id)
  then show ?thesis using held by (simp add: held_same_users)
next
  case (DeleteLearningPath path_id)
  then show ?thesis using held by (simp add: held_same_users)
next
  case (UpdateLearningPath path_id)
  then show ?thesis using held by (simp add: held_same_users)
qed

lemma held_serve_seq:
  "held_locked uid db \<Longrightarrow> list_all (leaves_locked uid) run \<Longrightarrow>
   held_locked uid (serve_seq fw run db)"
proof (induction run arbitrary: db)
  case Nil
  then show ?case by simp
next
  case (Cons a run)
  obtain route request where a: "a = (route, request)" by (cases a)
  have "held_locked uid (res_db (serve fw route request db))"
    using Cons.prems a by (intro held_serve) simp_all
  then show ?case
    using Cons.IH Cons.prems a by simp
qed

lemma login_view_rejects:
  assumes "req_method request = ''POST''" and "req_POST request ''email'' = Some email"
    and "objects_get (\<lambda>u. user_email u = email) (users db) = Inr user"
    and "\<not> user_is_admin user" and "user_is_locked user"
  shows "res_db (login_view fw request db) = db \<and>
         res_session (login_view fw request db) = req_session request \<and>
         res_response (login_view fw request db) = Render ''login.html'' \<and>
         (email \<noteq> [] \<and> \<not> not_str (req_POST request ''password'') \<longrightarrow>
            res_messages (login_view fw request db) =
              [(ERROR, ''Your account is locked. Please contact an admin.'')])"
  using assms
  by (auto simp: login_view_def respond_def not_str_def split: option.splits)

text \<open>
  C2, as the specification states it: after the lock, the view rejects the user
  whatever the password, until an admin's toggle. On the example, the user
  \<^verbatim>\<open>a@b.com\<close> fails a fifth time and is locked, and the correct password is rejected.
  Then the admin posts \<^verbatim>\<open>update_user_view\<close> for the user with \<^verbatim>\<open>is_admin=on\<close>: no
  \<^verbatim>\<open>toggle_lock_user\<close> is served, the row is still locked with counter 5, and the
  correct password logs the user in.
\<close>

theorem locked_user_promoted_logs_in:
  "user_failed_login_attempts ex_user = 4 \<and>
   login_view ex_framework (ex_post [(''email'', ''a@b.com''), (''password'', ''wrong'')] [] 0) ex_db =
     respond (ex_db\<lparr>users := [ex_admin, ex_locked]\<rparr>) Map.empty
       [(ERROR, ''Your account has been locked due to too many failed login attempts. Please contact an admin.'')]
       (Render ''login.html'') \<and>
   user_is_locked ex_locked \<and>
   login_view ex_framework (ex_post [(''email'', ''a@b.com''), (''password'', ''Abcdef1!'')] [] 0)
       (ex_db\<lparr>users := [ex_admin, ex_locked]\<rparr>) =
     respond (ex_db\<lparr>users := [ex_admin, ex_locked]\<rparr>) Map.empty
       [(ERROR, ''Your account is locked. Please contact an admin.'')] (Render ''login.html'') \<and>
   update_user_view ex_framework 8
       (ex_post [(''email'', ''a@b.com''), (''is_admin'', ''on'')] [(''user_id'', ''7'')] 0)
       (ex_db\<lparr>users := [ex_admin, ex_locked]\<rparr>) =
     respond
       (ex_db\<lparr>users :=
          [ex_admin,
           ex_locked\<lparr>user_first_name := Some [], user_last_name := Some [],
                     user_is_admin := True\<rparr>]\<rparr>)
       (map_of [(''user_id'', ''7'')]) [(SUCCESS, ''User updated successfully!'')]
       (Redirect ''list_users'') \<and>
   user_is_locked
     (ex_locked\<lparr>user_first_name := Some [], user_last_name := Some [],
                  user_is_admin := True\<rparr>) \<and>
   user_failed_login_attempts
     (ex_locked\<lparr>user_first_name := Some [], user_last_name := Some [],
                  user_is_admin := True\<rparr>) = 5 \<and>
   res_response
     (login_view ex_framework (ex_post [(''email'', ''a@b.com''), (''password'', ''Abcdef1!'')] [] 0)
        (ex_db\<lparr>users :=
          [ex_admin,
           ex_locked\<lparr>user_first_name := Some [], user_last_name := Some [],
                     user_is_admin := True\<rparr>]\<rparr>)) =
     Redirect ''dashboard'' \<and>
   res_session
     (login_view ex_framework (ex_post [(''email'', ''a@b.com''), (''password'', ''Abcdef1!'')] [] 0)
        (ex_db\<lparr>users :=
          [ex_admin,
           ex_locked\<lparr>user_first_name := Some [], user_last_name := Some [],
                     user_is_admin := True\<rparr>]\<rparr>))
     ''user_id'' = Some ''8''"
proof -
  have first: "login_view ex_framework (ex_post [(''email'', ''a@b.com''), (''password'', ''wrong'')] [] 0) ex_db =
      respond (ex_db\<lparr>users := [ex_admin, ex_locked]\<rparr>) Map.empty
        [(ERROR, ''Your account has been locked due to too many failed login attempts. Please contact an admin.'')]
        (Render ''login.html'')"
    by (simp add: login_view_def objects_get_def verify_password_def respond_def User_save_def
        ex_post_def ex_db_def ex_admin_def ex_user_def ex_locked_def ex_framework_def)
  have second: "login_view ex_framework (ex_post [(''email'', ''a@b.com''), (''password'', ''Abcdef1!'')] [] 0)
        (ex_db\<lparr>users := [ex_admin, ex_locked]\<rparr>) =
      respond (ex_db\<lparr>users := [ex_admin, ex_locked]\<rparr>) Map.empty
        [(ERROR, ''Your account is locked. Please contact an admin.'')] (Render ''login.html'')"
    by (simp add: login_view_def objects_get_def verify_password_def respond_def User_save_def
        not_str_def ex_post_def ex_db_def ex_admin_def ex_user_def ex_locked_def ex_framework_def)
  have third: "update_user_view ex_framework 8
        (ex_post [(''email'', ''a@b.com''), (''is_admin'', ''on'')] [(''user_id'', ''7'')] 0)
        (ex_db\<lparr>users := [ex_admin, ex_locked]\<rparr>) =
      respond
        (ex_db\<lparr>users :=
          [ex_admin,
           ex_locked\<lparr>user_first_name := Some [], user_last_name := Some [],
                     user_is_admin := True\<rparr>]\<rparr>)
        (map_of [(''user_id'', ''7'')]) [(SUCCESS, ''User updated successfully!'')]
        (Redirect ''list_users'')"
    by (simp add: update_user_view_def update_user_view_body_def admin_required_def
        get_object_or_404_def objects_get_def new_password_errors_def not_str_def POST_get_def
        respond_def User_save_def
        ex_post_def ex_db_def ex_admin_def ex_user_def ex_locked_def ex_framework_def)
  have fourth: "res_response
      (login_view ex_framework (ex_post [(''email'', ''a@b.com''), (''password'', ''Abcdef1!'')] [] 0)
         (ex_db\<lparr>users :=
          [ex_admin,
           ex_locked\<lparr>user_first_name := Some [], user_last_name := Some [],
                     user_is_admin := True\<rparr>]\<rparr>)) =
      Redirect ''dashboard'' \<and>
    res_session
      (login_view ex_framework (ex_post [(''email'', ''a@b.com''), (''password'', ''Abcdef1!'')] [] 0)
         (ex_db\<lparr>users :=
          [ex_admin,
           ex_locked\<lparr>user_first_name := Some [], user_last_name := Some [],
                     user_is_admin := True\<rparr>]\<rparr>))
      ''user_id'' = Some ''8''"
    by (simp add: login_view_def objects_get_def verify_password_def respond_def User_save_def
        not_str_def str_nat.simps
        ex_post_def ex_db_def ex_admin_def ex_user_def ex_locked_def ex_framework_def)
  have flags: "user_failed_login_attempts ex_user = 4" "user_is_locked ex_locked"
      "user_is_locked
         (ex_locked\<lparr>user_first_name := Some [], user_last_name := Some [],
                  user_is_admin := True\<rparr>)"
      "user_failed_login_attempts
         (ex_locked\<lparr>user_first_name := Some [], user_last_name := Some [],
                  user_is_admin := True\<rparr>) = 5"
    by (simp_all add: ex_user_def ex_locked_def)
  show ?thesis
    using first second third fourth flags by blast
qed

text \<open>
  C2, amended. Let a user who is no admin and is not locked fail a login with an
  incorrect password. If the counter was 4, the view sets it to 5, locks the row and
  answers with the account-locked message. From then on, after any run of further login
  requests, a login request with the user's email changes nothing and gets the login
  page again, with the locked message whenever it carries a password, whatever
  \<^verbatim>\<open>check_password\<close> says of the password. The same holds after any run of requests to
  any of the views, for a login request whose email is that of the row with the user's
  key, as long as no request of the run is a \<^verbatim>\<open>toggle_lock_user\<close> for the user
  without \<^verbatim>\<open>is_locked=on\<close> or an \<^verbatim>\<open>update_user_view\<close> for the user with
  \<^verbatim>\<open>is_admin=on\<close> (and no new user is given the user's key). Once an admin has posted
  \<^verbatim>\<open>toggle_lock_user\<close> for the user without \<^verbatim>\<open>is_locked=on\<close>, the row is unlocked with
  counter 0 and a login with the correct password succeeds. If the failed attempt
  leaves the counter below 5, the view saves the counter and reports it out of 5:
  \<^verbatim>\<open>Attempt 1/5.\<close> after the first failure, up to \<^verbatim>\<open>Attempt 4/5.\<close> after the fourth.
\<close>

theorem lockout_after_five_failures:
  assumes pk: "distinct (map user_id (users db))"
    and post: "req_method request = ''POST''"
    and email: "req_POST request ''email'' = Some email" "email \<noteq> []"
    and password: "req_POST request ''password'' = Some password" "password \<noteq> []"
    and found: "objects_get (\<lambda>u. user_email u = email) (users db) = Inr user"
    and plain: "\<not> user_is_admin user" and unlocked: "\<not> user_is_locked user"
    and wrong: "\<not> verify_password fw password (user_password user)"
  shows
    "(user_failed_login_attempts user = 4 \<longrightarrow>
       (let locked = user\<lparr>user_failed_login_attempts := 5, user_is_locked := True,
                           user_updated_at := req_now request\<rparr>;
            db1 = res_db (login_view fw request db)
        in
        res_messages (login_view fw request db) =
          [(ERROR, ''Your account has been locked due to too many failed login attempts. Please contact an admin.'')] \<and>
        res_session (login_view fw request db) = req_session request \<and>
        objects_get (\<lambda>u. user_email u = email) (users db1) = Inr locked \<and>
        (\<forall>fw' requests request'.
           req_method request' = ''POST'' \<and> req_POST request' ''email'' = Some email \<longrightarrow>
           (let db2 = login_seq fw' requests db1 in
            res_db (login_view fw' request' db2) = db2 \<and>
            res_session (login_view fw' request' db2) = req_session request' \<and>
            res_response (login_view fw' request' db2) = Render ''login.html'' \<and>
            (\<not> not_str (req_POST request' ''password'') \<longrightarrow>
               res_messages (login_view fw' request' db2) =
                 [(ERROR, ''Your account is locked. Please contact an admin.'')]))) \<and>
        (\<forall>fw' run request' email' row.
           list_all (leaves_locked (user_id user)) run \<and>
           req_method request' = ''POST'' \<and> req_POST request' ''email'' = Some email' \<and>
           objects_get (\<lambda>u. user_email u = email') (users (serve_seq fw' run db1)) = Inr row \<and>
           user_id row = user_id user \<longrightarrow>
           (let db2 = serve_seq fw' run db1 in
            res_db (login_view fw' request' db2) = db2 \<and>
            res_session (login_view fw' request' db2) = req_session request' \<and>
            res_response (login_view fw' request' db2) = Render ''login.html'' \<and>
            (email' \<noteq> [] \<and> \<not> not_str (req_POST request' ''password'') \<longrightarrow>
               res_messages (login_view fw' request' db2) =
                 [(ERROR, ''Your account is locked. Please contact an admin.'')]))) \<and>
        (\<forall>fw' requests unlock sid aid admin.
           req_session unlock ''user_id'' = Some sid \<and> sid \<noteq> [] \<and> UUID fw' sid = Some aid \<and>
           objects_get (\<lambda>u. user_id u = aid) (users (login_seq fw' requests db1)) = Inr admin \<and>
           user_is_admin admin \<and> req_method unlock = ''POST'' \<and>
           req_POST unlock ''is_locked'' \<noteq> Some ''on'' \<longrightarrow>
           (let db3 = res_db (toggle_lock_user fw' (user_id user) unlock
                                (login_seq fw' requests db1))
            in
            objects_get (\<lambda>u. user_email u = email) (users db3) =
              Inr (locked\<lparr>user_is_locked := False, user_failed_login_attempts := 0,
                          user_updated_at := req_now unlock\<rparr>) \<and>
            (\<forall>request' password'.
               req_method request' = ''POST'' \<and> req_POST request' ''email'' = Some email \<and>
               req_POST request' ''password'' = Some password' \<and> password' \<noteq> [] \<and>
               verify_password fw' password' (user_password user) \<longrightarrow>
               res_response (login_view fw' request' db3) = Redirect ''dashboard'' \<and>
               res_session (login_view fw' request' db3) ''user_id'' =
                 Some (str_UUID fw' (user_id user))))))) \<and>
     (user_failed_login_attempts user + 1 < 5 \<longrightarrow>
        login_view fw request db =
          respond
            (User_save (req_now request)
               (user\<lparr>user_failed_login_attempts := user_failed_login_attempts user + 1\<rparr>) db)
            (req_session request)
            [(ERROR, ''Invalid email or password. Attempt '' @
                     str_int (user_failed_login_attempts user + 1) @ ''/5.'')]
            (Render ''login.html'')) \<and>
     (user_failed_login_attempts user = 0 \<longrightarrow>
        login_view fw request db =
          respond
            (User_save (req_now request) (user\<lparr>user_failed_login_attempts := 1\<rparr>) db)
            (req_session request)
            [(ERROR, ''Invalid email or password. Attempt 1/5.'')]
            (Render ''login.html'')) \<and>
     (user_failed_login_attempts user = 1 \<longrightarrow>
        login_view fw request db =
          respond
            (User_save (req_now request) (user\<lparr>user_failed_login_attempts := 2\<rparr>) db)
            (req_session request)
            [(ERROR, ''Invalid email or password. Attempt 2/5.'')]
            (Render ''login.html'')) \<and>
     (user_failed_login_attempts user = 2 \<longrightarrow>
        login_view fw request db =
          respond
            (User_save (req_now request) (user\<lparr>user_failed_login_attempts := 3\<rparr>) db)
            (req_session request)
            [(ERROR, ''Invalid email or password. Attempt 3/5.'')]
            (Render ''login.html'')) \<and>
     (user_failed_login_attempts user = 3 \<longrightarrow>
        login_view fw request db =
          respond
            (User_save (req_now request) (user\<lparr>user_failed_login_attempts := 4\<rparr>) db)
            (req_session request)
            [(ERROR, ''Invalid email or password. Attempt 4/5.'')]
            (Render ''login.html''))"
proof (intro conjI impI)
  assume four: "user_failed_login_attempts user = 4"
  define locked where "locked = user\<lparr>user_failed_login_attempts := 5, user_is_locked := True,
                           user_updated_at := req_now request\<rparr>"
  define db1 where "db1 = res_db (login_view fw request db)"
  have run: "login_view fw request db =
      respond (User_save (req_now request)
                 (user\<lparr>user_failed_login_attempts := 5, user_is_locked := True\<rparr>) db)
        (req_session request)
        [(ERROR, ''Your account has been locked due to too many failed login attempts. Please contact an admin.'')]
        (Render ''login.html'')"
    using post email password found plain unlocked wrong four
    by (simp add: login_view_def Let_def)
  have db1: "db1 = User_save (req_now request)
                 (user\<lparr>user_failed_login_attempts := 5, user_is_locked := True\<rparr>) db"
    by (simp add: db1_def run respond_def)
  have mem: "user \<in> set (users db)" and mail: "user_email user = email"
    using objects_get_InrD [OF found] by simp_all
  have get1: "objects_get (\<lambda>u. user_email u = email) (users db1) = Inr locked"
    unfolding db1 locked_def
    using get_by_email_after_save [OF pk found, of "user\<lparr>user_failed_login_attempts := 5, user_is_locked := True\<rparr>" "req_now request"] mail
    by simp
  have pk1: "distinct (map user_id (users db1))"
    unfolding db1 using pk keys_User_save [OF mem, of "user\<lparr>user_failed_login_attempts := 5, user_is_locked := True\<rparr>" "req_now request"]
    by simp
  have locked_props: "\<not> user_is_admin locked" "user_is_locked locked" "user_id locked = user_id user"
      "user_password locked = user_password user" "user_email locked = email"
    using plain mail by (simp_all add: locked_def)
  have get2: "objects_get (\<lambda>u. user_email u = email) (users (login_seq fw' requests db1)) = Inr locked"
    for fw' requests
  proof -
    have keeps: "list_all2 login_keeps (users db1) (users (login_seq fw' requests db1))"
      using pk1 by (rule login_seq_keeps)
    have only: "\<not> user_is_admin x \<and> user_is_locked x"
      if "x \<in> set (users db1)" "user_email x = email" for x
    proof -
      have "filter (\<lambda>u. user_email u = email) (users db1) = [locked]"
        using get1 by (simp add: objects_get_Inr_iff)
      moreover have "x \<in> set (filter (\<lambda>u. user_email u = email) (users db1))"
        using that by simp
      ultimately have "x \<in> set [locked]"
        by (simp only:)
      then have "x = locked"
        by simp
      then show ?thesis using locked_props by simp
    qed
    have "filter (\<lambda>u. user_email u = email) (users (login_seq fw' requests db1)) =
        filter (\<lambda>u. user_email u = email) (users db1)"
      using keeps only by (rule login_keeps_filter_email)
    then show ?thesis
      using get1 by (simp add: objects_get_Inr_iff)
  qed
  have pk2: "distinct (map user_id (users (login_seq fw' requests db1)))" for fw' requests
    using pk1 login_keeps_keys [OF login_seq_keeps [OF pk1, of fw' requests]] by simp
  have rejected: "let db2 = login_seq fw' requests db1 in
            res_db (login_view fw' request' db2) = db2 \<and>
            res_session (login_view fw' request' db2) = req_session request' \<and>
            res_response (login_view fw' request' db2) = Render ''login.html'' \<and>
            (\<not> not_str (req_POST request' ''password'') \<longrightarrow>
               res_messages (login_view fw' request' db2) =
                 [(ERROR, ''Your account is locked. Please contact an admin.'')])"
    if "req_method request' = ''POST'' \<and> req_POST request' ''email'' = Some email"
    for fw' requests request'
    unfolding Let_def
    using login_view_locked [of request' email "login_seq fw' requests db1" locked fw']
      that email(2) get2 [of fw' requests] locked_props by simp
  have unlocking: "let db3 = res_db (toggle_lock_user fw' (user_id user) unlock
                                (login_seq fw' requests db1))
            in
            objects_get (\<lambda>u. user_email u = email) (users db3) =
              Inr (locked\<lparr>user_is_locked := False, user_failed_login_attempts := 0,
                          user_updated_at := req_now unlock\<rparr>) \<and>
            (\<forall>request' password'.
               req_method request' = ''POST'' \<and> req_POST request' ''email'' = Some email \<and>
               req_POST request' ''password'' = Some password' \<and> password' \<noteq> [] \<and>
               verify_password fw' password' (user_password user) \<longrightarrow>
               res_response (login_view fw' request' db3) = Redirect ''dashboard'' \<and>
               res_session (login_view fw' request' db3) ''user_id'' =
                 Some (str_UUID fw' (user_id user)))"
    if h: "req_session unlock ''user_id'' = Some sid \<and> sid \<noteq> [] \<and> UUID fw' sid = Some aid \<and>
           objects_get (\<lambda>u. user_id u = aid) (users (login_seq fw' requests db1)) = Inr admin \<and>
           user_is_admin admin \<and> req_method unlock = ''POST'' \<and>
           req_POST unlock ''is_locked'' \<noteq> Some ''on''"
    for fw' requests unlock sid aid admin
  proof -
    let ?db2 = "login_seq fw' requests db1"
    let ?open = "locked\<lparr>user_is_locked := False, user_failed_login_attempts := 0\<rparr>"
    have in2: "locked \<in> set (users ?db2)"
      using objects_get_InrD [OF get2 [of fw' requests]] by simp
    have by_key: "objects_get (\<lambda>u. user_id u = user_id user) (users ?db2) = Inr locked"
      using get_by_key [OF pk2 [of fw' requests] in2] locked_props by simp
    have db3: "res_db (toggle_lock_user fw' (user_id user) unlock ?db2) =
        User_save (req_now unlock) ?open ?db2"
      using toggle_lock_user_passes [of unlock sid fw' aid ?db2 admin "user_id user" locked] h by_key
      by simp
    have get3: "objects_get (\<lambda>u. user_email u = email)
        (users (res_db (toggle_lock_user fw' (user_id user) unlock ?db2))) =
        Inr (locked\<lparr>user_is_locked := False, user_failed_login_attempts := 0,
                    user_updated_at := req_now unlock\<rparr>)"
      unfolding db3
      using get_by_email_after_save [OF pk2 [of fw' requests] get2 [of fw' requests], of ?open "req_now unlock"] locked_props
      by simp
    have again: "res_response (login_view fw' request' (res_db (toggle_lock_user fw' (user_id user) unlock ?db2))) = Redirect ''dashboard'' \<and>
        res_session (login_view fw' request' (res_db (toggle_lock_user fw' (user_id user) unlock ?db2))) ''user_id'' =
          Some (str_UUID fw' (user_id user))"
      if r: "req_method request' = ''POST'' \<and> req_POST request' ''email'' = Some email \<and>
          req_POST request' ''password'' = Some password' \<and> password' \<noteq> [] \<and>
          verify_password fw' password' (user_password user)" for request' password'
      using login_view_succeeds [of request' email password' _ _ fw', OF _ _ email(2) _ _ get3] r
        locked_props by simp
    show ?thesis
      unfolding Let_def using get3 again by blast
  qed
  have held1: "held_locked (user_id user) db1"
  proof -
    have in1: "locked \<in> set (users db1)"
      using objects_get_InrD [OF get1] by simp
    have "user_is_locked r \<and> \<not> user_is_admin r"
      if "r \<in> set (users db1)" "user_id r = user_id user" for r
      using same_key_same_row [OF pk1 that(1) in1] that(2) locked_props by simp
    then show ?thesis
      using pk1 by (simp add: held_locked_def)
  qed
  have held_back: "let db2 = serve_seq fw' run db1 in
            res_db (login_view fw' request' db2) = db2 \<and>
            res_session (login_view fw' request' db2) = req_session request' \<and>
            res_response (login_view fw' request' db2) = Render ''login.html'' \<and>
            (email' \<noteq> [] \<and> \<not> not_str (req_POST request' ''password'') \<longrightarrow>
               res_messages (login_view fw' request' db2) =
                 [(ERROR, ''Your account is locked. Please contact an admin.'')])"
    if h: "list_all (leaves_locked (user_id user)) run \<and>
           req_method request' = ''POST'' \<and> req_POST request' ''email'' = Some email' \<and>
           objects_get (\<lambda>u. user_email u = email') (users (serve_seq fw' run db1)) = Inr row \<and>
           user_id row = user_id user"
    for fw' run request' email' row
  proof -
    have held2: "held_locked (user_id user) (serve_seq fw' run db1)"
      using held1 h by (intro held_serve_seq) simp_all
    have "row \<in> set (users (serve_seq fw' run db1))"
      using h objects_get_InrD [of "\<lambda>u. user_email u = email'" "users (serve_seq fw' run db1)" row]
      by simp
    then have "\<not> user_is_admin row" "user_is_locked row"
      using held2 h by (simp_all add: held_locked_def)
    then show ?thesis
      unfolding Let_def
      using login_view_rejects [of request' email' "serve_seq fw' run db1" row fw'] h by simp
  qed
  have msgs: "res_messages (login_view fw request db) =
          [(ERROR, ''Your account has been locked due to too many failed login attempts. Please contact an admin.'')]"
    and sess: "res_session (login_view fw request db) = req_session request"
    using run by (simp_all add: respond_def)
  have "res_messages (login_view fw request db) =
          [(ERROR, ''Your account has been locked due to too many failed login attempts. Please contact an admin.'')] \<and>
        res_session (login_view fw request db) = req_session request \<and>
        objects_get (\<lambda>u. user_email u = email) (users db1) = Inr locked \<and>
        (\<forall>fw' requests request'.
           req_method request' = ''POST'' \<and> req_POST request' ''email'' = Some email \<longrightarrow>
           (let db2 = login_seq fw' requests db1 in
            res_db (login_view fw' request' db2) = db2 \<and>
            res_session (login_view fw' request' db2) = req_session request' \<and>
            res_response (login_view fw' request' db2) = Render ''login.html'' \<and>
            (\<not> not_str (req_POST request' ''password'') \<longrightarrow>
               res_messages (login_view fw' request' db2) =
                 [(ERROR, ''Your account is locked. Please contact an admin.'')]))) \<and>
        (\<forall>fw' run request' email' row.
           list_all (leaves_locked (user_id user)) run \<and>
           req_method request' = ''POST'' \<and> req_POST request' ''email'' = Some email' \<and>
           objects_get (\<lambda>u. user_email u = email') (users (serve_seq fw' run db1)) = Inr row \<and>
           user_id row = user_id user \<longrightarrow>
           (let db2 = serve_seq fw' run db1 in
            res_db (login_view fw' request' db2) = db2 \<and>
            res_session (login_view fw' request' db2) = req_session request' \<and>
            res_response (login_view fw' request' db2) = Render ''login.html'' \<and>
            (email' \<noteq> [] \<and> \<not> not_str (req_POST request' ''password'') \<longrightarrow>
               res_messages (login_view fw' request' db2) =
                 [(ERROR, ''Your account is locked. Please contact an admin.'')]))) \<and>
        (\<forall>fw' requests unlock sid aid admin.
           req_session unlock ''user_id'' = Some sid \<and> sid \<noteq> [] \<and> UUID fw' sid = Some aid \<and>
           objects_get (\<lambda>u. user_id u = aid) (users (login_seq fw' requests db1)) = Inr admin \<and>
           user_is_admin admin \<and> req_method unlock = ''POST'' \<and>
           req_POST unlock ''is_locked'' \<noteq> Some ''on'' \<longrightarrow>
           (let db3 = res_db (toggle_lock_user fw' (user_id user) unlock
                                (login_seq fw' requests db1))
            in
            objects_get (\<lambda>u. user_email u = email) (users db3) =
              Inr (locked\<lparr>user_is_locked := False, user_failed_login_attempts := 0,
                          user_updated_at := req_now unlock\<rparr>) \<and>
            (\<forall>request' password'.
               req_method request' = ''POST'' \<and> req_POST request' ''email'' = Some email \<and>
               req_POST request' ''password'' = Some password' \<and> password' \<noteq> [] \<and>
               verify_password fw' password' (user_password user) \<longrightarrow>
               res_response (login_view fw' request' db3) = Redirect ''dashboard'' \<and>
               res_session (login_view fw' request' db3) ''user_id'' =
                 Some (str_UUID fw' (user_id user)))))"
    using msgs sess get1 rejected held_back unlocking by blast
  then show "let locked = user\<lparr>user_failed_login_attempts := 5, user_is_locked := True,
                           user_updated_at := req_now request\<rparr>;
            db1 = res_db (login_view fw request db)
        in
        res_messages (login_view fw request db) =
          [(ERROR, ''Your account has been locked due to too many failed login attempts. Please contact an admin.'')] \<and>
        res_session (login_view fw request db) = req_session request \<and>
        objects_get (\<lambda>u. user_email u = email) (users db1) = Inr locked \<and>
        (\<forall>fw' requests request'.
           req_method request' = ''POST'' \<and> req_POST request' ''email'' = Some email \<longrightarrow>
           (let db2 = login_seq fw' requests db1 in
            res_db (login_view fw' request' db2) = db2 \<and>
            res_session (login_view fw' request' db2) = req_session request' \<and>
            res_response (login_view fw' request' db2) = Render ''login.html'' \<and>
            (\<not> not_str (req_POST request' ''password'') \<longrightarrow>
               res_messages (login_view fw' request' db2) =
                 [(ERROR, ''Your account is locked. Please contact an admin.'')]))) \<and>
        (\<forall>fw' run request' email' row.
           list_all (leaves_locked (user_id user)) run \<and>
           req_method request' = ''POST'' \<and> req_POST request' ''email'' = Some email' \<and>
           objects_get (\<lambda>u. user_email u = email') (users (serve_seq fw' run db1)) = Inr row \<and>
           user_id row = user_id user \<longrightarrow>
           (let db2 = serve_seq fw' run db1 in
            res_db (login_view fw' request' db2) = db2 \<and>
            res_session (login_view fw' request' db2) = req_session request' \<and>
            res_response (login_view fw' request' db2) = Render ''login.html'' \<and>
            (email' \<noteq> [] \<and> \<not> not_str (req_POST request' ''password'') \<longrightarrow>
               res_messages (login_view fw' request' db2) =
                 [(ERROR, ''Your account is locked. Please contact an admin.'')]))) \<and>
        (\<forall>fw' requests unlock sid aid admin.
           req_session unlock ''user_id'' = Some sid \<and> sid \<noteq> [] \<and> UUID fw' sid = Some aid \<and>
           objects_get (\<lambda>u. user_id u = aid) (users (login_seq fw' requests db1)) = Inr admin \<and>
           user_is_admin admin \<and> req_method unlock = ''POST'' \<and>
           req_POST unlock ''is_locked'' \<noteq> Some ''on'' \<longrightarrow>
           (let db3 = res_db (toggle_lock_user fw' (user_id user) unlock
                                (login_seq fw' requests db1))
            in
            objects_get (\<lambda>u. user_email u = email) (users db3) =
              Inr (locked\<lparr>user_is_locked := False, user_failed_login_attempts := 0,
                          user_updated_at := req_now unlock\<rparr>) \<and>
            (\<forall>request' password'.
               req_method request' = ''POST'' \<and> req_POST request' ''email'' = Some email \<and>
               req_POST request' ''password'' = Some password' \<and> password' \<noteq> [] \<and>
               verify_password fw' password' (user_password user) \<longrightarrow>
               res_response (login_view fw' request' db3) = Redirect ''dashboard'' \<and>
               res_session (login_view fw' request' db3) ''user_id'' =
                 Some (str_UUID fw' (user_id user)))))"
    unfolding locked_def db1_def Let_def .
next
  assume "user_failed_login_attempts user + 1 < 5"
  then show "login_view fw request db =
          respond
            (User_save (req_now request)
               (user\<lparr>user_failed_login_attempts := user_failed_login_attempts user + 1\<rparr>) db)
            (req_session request)
            [(ERROR, ''Invalid email or password. Attempt '' @
                     str_int (user_failed_login_attempts user + 1) @ ''/5.'')]
            (Render ''login.html'')"
    using post email password found plain unlocked wrong
    by (simp add: login_view_def Let_def)
next
  assume "user_failed_login_attempts user = 0"
  then show "login_view fw request db =
          respond
            (User_save (req_now request) (user\<lparr>user_failed_login_attempts := 1\<rparr>) db)
            (req_session request)
            [(ERROR, ''Invalid email or password. Attempt 1/5.'')]
            (Render ''login.html'')"
    using post email password found plain unlocked wrong
    by (simp add: login_view_def Let_def str_int_def str_nat.simps)
next
  assume "user_failed_login_attempts user = 1"
  then show "login_view fw request db =
          respond
            (User_save (req_now request) (user\<lparr>user_failed_login_attempts := 2\<rparr>) db)
            (req_session request)
            [(ERROR, ''Invalid email or password. Attempt 2/5.'')]
            (Render ''login.html'')"
    using post email password found plain unlocked wrong
    by (simp add: login_view_def Let_def str_int_def str_nat.simps)
next
  assume "user_failed_login_attempts user = 2"
  then show "login_view fw request db =
          respond
            (User_save (req_now request) (user\<lparr>user_failed_login_attempts := 3\<rparr>) db)
            (req_session request)
            [(ERROR, ''Invalid email or password. Attempt 3/5.'')]
            (Render ''login.html'')"
    using post email password found plain unlocked wrong
    by (simp add: login_view_def Let_def str_int_def str_nat.simps)
next
  assume "user_failed_login_attempts user = 3"
  then show "login_view fw request db =
          respond
            (User_save (req_now request) (user\<lparr>user_failed_login_attempts := 4\<rparr>) db)
            (req_session request)
            [(ERROR, ''Invalid email or password. Attempt 4/5.'')]
            (Render ''login.html'')"
    using post email password found plain unlocked wrong
    by (simp add: login_view_def Let_def str_int_def str_nat.simps)
qed

text \<open>
  On the example: the user \<^verbatim>\<open>a@b.com\<close> has four failed attempts and fails again; then
  the correct password gets the locked message and changes nothing, also after the admin
  has changed the user's email to \<^verbatim>\<open>c@b.com\<close> with \<^verbatim>\<open>update_user_view\<close>; after the
  admin's toggle the correct password logs the user in. And with no failed attempt so
  far, a wrong password sets the counter to 1 and is answered with \<^verbatim>\<open>Attempt 1/5.\<close>
\<close>

theorem lockout_after_five_failures_witness:
  "user_failed_login_attempts ex_user = 4 \<and>
   verify_password ex_framework ''Abcdef1!'' (user_password ex_user) \<and>
   res_messages
     (login_view ex_framework (ex_post [(''email'', ''a@b.com''), (''password'', ''wrong'')] [] 0) ex_db) =
     [(ERROR, ''Your account has been locked due to too many failed login attempts. Please contact an admin.'')] \<and>
   (let db1 = res_db (login_view ex_framework
                        (ex_post [(''email'', ''a@b.com''), (''password'', ''wrong'')] [] 0) ex_db);
        right = ex_post [(''email'', ''a@b.com''), (''password'', ''Abcdef1!'')] [] 0;
        renamed = ex_post [(''email'', ''c@b.com''), (''password'', ''Abcdef1!'')] [] 0;
        db2 = serve_seq ex_framework
                [(UpdateUser 8, ex_post [(''email'', ''c@b.com'')] [(''user_id'', ''7'')] 0),
                 (Login, right)] db1
    in
    res_db (login_view ex_framework right db1) = db1 \<and>
    res_messages (login_view ex_framework right db1) =
      [(ERROR, ''Your account is locked. Please contact an admin.'')] \<and>
    map user_email (users db2) = [''root@b.com'', ''c@b.com''] \<and>
    res_db (login_view ex_framework renamed db2) = db2 \<and>
    res_messages (login_view ex_framework renamed db2) =
      [(ERROR, ''Your account is locked. Please contact an admin.'')] \<and>
    res_response
      (login_view ex_framework right
         (res_db (toggle_lock_user ex_framework 8 (ex_post [] [(''user_id'', ''7'')] 0) db1))) =
      Redirect ''dashboard'') \<and>
   (let fresh = ex_db\<lparr>users := [ex_admin, ex_user\<lparr>user_failed_login_attempts := 0\<rparr>]\<rparr>;
        wrong = ex_post [(''email'', ''a@b.com''), (''password'', ''wrong'')] [] 0
    in
    res_messages (login_view ex_framework wrong fresh) =
      [(ERROR, ''Invalid email or password. Attempt 1/5.'')] \<and>
    map (\<lambda>u. (user_id u, user_failed_login_attempts u, user_is_locked u))
      (users (res_db (login_view ex_framework wrong fresh))) = [(7, 3, True), (8, 1, False)])"
proof -
  let ?wrong = "ex_post [(''email'', ''a@b.com''), (''password'', ''wrong'')] [] 0"
  let ?right = "ex_post [(''email'', ''a@b.com''), (''password'', ''Abcdef1!'')] [] 0"
  let ?renamed = "ex_post [(''email'', ''c@b.com''), (''password'', ''Abcdef1!'')] [] 0"
  let ?unlock = "ex_post [] [(''user_id'', ''7'')] 0"
  let ?run = "[(UpdateUser 8, ex_post [(''email'', ''c@b.com'')] [(''user_id'', ''7'')] 0),
              (Login, ?right)]"
  let ?db1 = "res_db (login_view ex_framework ?wrong ex_db)"
  let ?locked = "ex_user\<lparr>user_failed_login_attempts := 5, user_is_locked := True,
                         user_updated_at := mk_datetime 2025 6 2 12 30\<rparr>"
  let ?moved = "?locked\<lparr>user_email := ''c@b.com'', user_first_name := Some [],
                         user_last_name := Some [], user_is_admin := False\<rparr>"
  let ?fresh = "ex_db\<lparr>users := [ex_admin, ex_user\<lparr>user_failed_login_attempts := 0\<rparr>]\<rparr>"
  have pk: "distinct (map user_id (users ex_db))"
    by (simp add: ex_db_def ex_admin_def ex_user_def)
  have post: "req_method ?wrong = ''POST''"
    and email: "req_POST ?wrong ''email'' = Some ''a@b.com''" "''a@b.com'' \<noteq> []"
    and password: "req_POST ?wrong ''password'' = Some ''wrong''" "''wrong'' \<noteq> []"
    by (simp_all add: ex_post_def)
  have found: "objects_get (\<lambda>u. user_email u = ''a@b.com'') (users ex_db) = Inr ex_user"
    by (simp add: objects_get_def ex_db_def ex_admin_def ex_user_def)
  have plain: "\<not> user_is_admin ex_user" and unlocked: "\<not> user_is_locked ex_user"
    and four: "user_failed_login_attempts ex_user = 4"
    and key: "user_id ex_user = 8"
    by (simp_all add: ex_user_def)
  have wrong: "\<not> verify_password ex_framework ''wrong'' (user_password ex_user)"
    and right: "verify_password ex_framework ''Abcdef1!'' (user_password ex_user)"
    by (simp_all add: verify_password_def ex_framework_def ex_user_def)
  note main = lockout_after_five_failures [OF pk post email password found plain unlocked wrong,
      THEN conjunct1, rule_format, OF four, unfolded Let_def]
  have msgs: "res_messages (login_view ex_framework ?wrong ex_db) =
     [(ERROR, ''Your account has been locked due to too many failed login attempts. Please contact an admin.'')]"
    using main by blast
  have r: "req_method ?right = ''POST'' \<and> req_POST ?right ''email'' = Some ''a@b.com''"
    by (simp add: ex_post_def)
  have pw: "\<not> not_str (req_POST ?right ''password'')"
    by (simp add: ex_post_def not_str_def)
  have rejected: "res_db (login_view ex_framework ?right ?db1) = ?db1 \<and>
      res_messages (login_view ex_framework ?right ?db1) =
        [(ERROR, ''Your account is locked. Please contact an admin.'')]"
    using main [THEN conjunct2, THEN conjunct2, THEN conjunct2, THEN conjunct1, rule_format,
        OF r, of ex_framework "[]"] pw
    by simp
  have db1: "?db1 = ex_db\<lparr>users := [ex_admin, ?locked]\<rparr>"
    by (simp add: login_view_def objects_get_def verify_password_def respond_def User_save_def
        ex_post_def ex_db_def ex_admin_def ex_user_def ex_framework_def)
  have rows1: "users ?db1 = [ex_admin, ?locked]"
    unfolding db1 by simp
  have step1: "res_db (update_user_view ex_framework 8
        (ex_post [(''email'', ''c@b.com'')] [(''user_id'', ''7'')] 0)
        (ex_db\<lparr>users := [ex_admin, ?locked]\<rparr>)) = ex_db\<lparr>users := [ex_admin, ?moved]\<rparr>"
    by (simp add: update_user_view_def update_user_view_body_def admin_required_def
        get_object_or_404_def objects_get_def new_password_errors_def not_str_def POST_get_def
        respond_def User_save_def
        ex_post_def ex_db_def ex_admin_def ex_user_def ex_framework_def)
  have step2: "res_db (login_view ex_framework ?right (ex_db\<lparr>users := [ex_admin, ?moved]\<rparr>)) =
      ex_db\<lparr>users := [ex_admin, ?moved]\<rparr>"
    by (simp add: login_view_def objects_get_def verify_password_def respond_def User_save_def
        not_str_def raise_def ex_post_def ex_db_def ex_admin_def ex_user_def ex_framework_def)
  have db2: "serve_seq ex_framework ?run ?db1 = ex_db\<lparr>users := [ex_admin, ?moved]\<rparr>"
    unfolding db1 by (simp only: serve_seq.simps serve.simps step1 step2)
  have emails2: "map user_email (users (serve_seq ex_framework ?run ?db1)) =
      [''root@b.com'', ''c@b.com'']"
    unfolding db2 by (simp add: ex_admin_def)
  have get2: "objects_get (\<lambda>u. user_email u = ''c@b.com'')
      (users (serve_seq ex_framework ?run ?db1)) = Inr ?moved"
    unfolding db2 by (simp add: objects_get_def ex_admin_def)
  have h2: "list_all (leaves_locked (user_id ex_user)) ?run \<and>
      req_method ?renamed = ''POST'' \<and> req_POST ?renamed ''email'' = Some ''c@b.com'' \<and>
      objects_get (\<lambda>u. user_email u = ''c@b.com'')
        (users (serve_seq ex_framework ?run ?db1)) = Inr ?moved \<and>
      user_id ?moved = user_id ex_user"
    using get2 by (intro conjI) (simp_all add: ex_post_def)
  have pw2: "''c@b.com'' \<noteq> [] \<and> \<not> not_str (req_POST ?renamed ''password'')"
    by (simp add: ex_post_def not_str_def)
  have held: "res_db (login_view ex_framework ?renamed (serve_seq ex_framework ?run ?db1)) =
        serve_seq ex_framework ?run ?db1 \<and>
      res_messages (login_view ex_framework ?renamed (serve_seq ex_framework ?run ?db1)) =
        [(ERROR, ''Your account is locked. Please contact an admin.'')]"
    using main [THEN conjunct2, THEN conjunct2, THEN conjunct2, THEN conjunct2, THEN conjunct1,
        rule_format, OF h2] pw2
    by blast
  have g: "objects_get (\<lambda>u. user_id u = 7) (users ?db1) = Inr ex_admin"
    unfolding rows1 by (simp add: objects_get_def ex_admin_def ex_user_def)
  have u: "req_session ?unlock ''user_id'' = Some ''7'' \<and> ''7'' \<noteq> [] \<and>
      UUID ex_framework ''7'' = Some 7 \<and>
      objects_get (\<lambda>u. user_id u = 7) (users (login_seq ex_framework [] ?db1)) = Inr ex_admin \<and>
      user_is_admin ex_admin \<and> req_method ?unlock = ''POST'' \<and>
      req_POST ?unlock ''is_locked'' \<noteq> Some ''on''"
    using g by (intro conjI) (simp_all add: ex_post_def ex_framework_def ex_admin_def)
  have r2: "req_method ?right = ''POST'' \<and> req_POST ?right ''email'' = Some ''a@b.com'' \<and>
      req_POST ?right ''password'' = Some ''Abcdef1!'' \<and> ''Abcdef1!'' \<noteq> [] \<and>
      verify_password ex_framework ''Abcdef1!'' (user_password ex_user)"
    using right by (simp add: ex_post_def)
  have again: "res_response
      (login_view ex_framework ?right
         (res_db (toggle_lock_user ex_framework 8 ?unlock ?db1))) = Redirect ''dashboard''"
    using main [THEN conjunct2, THEN conjunct2, THEN conjunct2, THEN conjunct2, THEN conjunct2,
        rule_format, OF u, THEN conjunct2, rule_format, OF r2] key
    by simp
  have pk0: "distinct (map user_id (users ?fresh))"
    by (simp add: ex_admin_def ex_user_def)
  have found0: "objects_get (\<lambda>u. user_email u = ''a@b.com'') (users ?fresh) =
      Inr (ex_user\<lparr>user_failed_login_attempts := 0\<rparr>)"
    by (simp add: objects_get_def ex_admin_def ex_user_def)
  have plain0: "\<not> user_is_admin (ex_user\<lparr>user_failed_login_attempts := 0\<rparr>)"
    and unlocked0: "\<not> user_is_locked (ex_user\<lparr>user_failed_login_attempts := 0\<rparr>)"
    and zero: "user_failed_login_attempts (ex_user\<lparr>user_failed_login_attempts := 0\<rparr>) = 0"
    by (simp_all add: ex_user_def)
  have wrong0: "\<not> verify_password ex_framework ''wrong''
      (user_password (ex_user\<lparr>user_failed_login_attempts := 0\<rparr>))"
    by (simp add: verify_password_def ex_framework_def ex_user_def)
  note below = lockout_after_five_failures [OF pk0 post email password found0 plain0 unlocked0
      wrong0, THEN conjunct2, THEN conjunct2, THEN conjunct1, rule_format, OF zero]
  have first: "res_messages (login_view ex_framework ?wrong ?fresh) =
      [(ERROR, ''Invalid email or password. Attempt 1/5.'')]"
    unfolding below by (simp add: respond_def)
  have counted: "map (\<lambda>u. (user_id u, user_failed_login_attempts u, user_is_locked u))
      (users (res_db (login_view ex_framework ?wrong ?fresh))) = [(7, 3, True), (8, 1, False)]"
    unfolding below by (simp add: respond_def User_save_def ex_admin_def ex_user_def)
  show ?thesis
    unfolding Let_def using four right msgs rejected emails2 held again first counted by blast
qed

subsection \<open>Password rules\<close>

text \<open>
  C9. \<^verbatim>\<open>validate_password\<close> reports no violation for \<^verbatim>\<open>Abcdef1!\<close>; exactly three for
  \<^verbatim>\<open>abcdefgh\<close> (no uppercase letter, no digit, no special character); and exactly four
  for \<^verbatim>\<open>short\<close> (length, no uppercase letter, no digit, no special character).
\<close>

theorem validate_password_examples:
  "validate_password ''Abcdef1!'' = [] \<and>
   validate_password ''abcdefgh'' =
     [''Password must contain at least one uppercase letter.'',
      ''Password must contain at least one digit.'',
      ''Password must contain at least one special character (e.g., !@#$%^&*).''] \<and>
   validate_password ''short'' =
     [''Password must be at least 8 characters long.'',
      ''Password must contain at least one uppercase letter.'',
      ''Password must contain at least one digit.'',
      ''Password must contain at least one special character (e.g., !@#$%^&*).'']"
  by (simp add: validate_password_def isupper_def islower_def isdigit_def special_characters_def)

end
